theory Spec2Isabelle
  imports Complex_Main "HOL-Library.AList"
begin

section \<open>Python values and errors\<close>

text \<open>
  The option dictionaries of the framework hold heterogeneous Python values. The values
  that the modelled functions inspect are \<^verbatim>\<open>None\<close>, booleans, integers and strings.
  A raised exception is a value of \<open>py_error\<close>; a function that can raise returns
  \<open>py_error + 'a\<close> with \<open>Inl\<close> for the exception.
\<close>

datatype pyval = PNone | PBool bool | PInt int | PStr string

datatype py_error =
    KeyError pyval
  | ValueError string
  | TypeError
  | AttributeError string
  | NotImplementedError string
  | ZeroDivisionError

type_synonym opts = "string \<rightharpoonup> pyval"

text \<open>\<^verbatim>\<open>d[k]\<close> raises \<^verbatim>\<open>KeyError\<close> on a missing key; \<^verbatim>\<open>d.get(k, default)\<close> does not.\<close>

definition getitem :: "opts \<Rightarrow> string \<Rightarrow> py_error + pyval" where
  "getitem d k = (case d k of None \<Rightarrow> Inl (KeyError (PStr k)) | Some v \<Rightarrow> Inr v)"

definition get_default :: "opts \<Rightarrow> string \<Rightarrow> pyval \<Rightarrow> pyval" where
  "get_default d k dflt = (case d k of None \<Rightarrow> dflt | Some v \<Rightarrow> v)"

text \<open>Decimal rendering of integers, as \<^verbatim>\<open>str\<close> and f-strings produce it.\<close>

fun str_nat :: "nat \<Rightarrow> string" where
  "str_nat n =
     (if n < 10 then [''0123456789'' ! n]
      else str_nat (n div 10) @ [''0123456789'' ! (n mod 10)])"

declare str_nat.simps [simp del]

definition str_int :: "int \<Rightarrow> string" where
  "str_int i = (if i < 0 then ''-'' @ str_nat (nat (- i)) else str_nat (nat i))"

fun py_str :: "pyval \<Rightarrow> string" where
  "py_str PNone = ''None''"
| "py_str (PBool b) = (if b then ''True'' else ''False'')"
| "py_str (PInt i) = str_int i"
| "py_str (PStr s) = s"

text \<open>
  Python's \<^verbatim>\<open>*\<close> and \<^verbatim>\<open>+\<close> on these values: booleans count as the integers 0 and 1, an
  integer times a string repeats the string, two strings concatenate, and every other
  combination raises \<^verbatim>\<open>TypeError\<close>.
\<close>

fun as_int :: "pyval \<Rightarrow> int option" where
  "as_int (PInt i) = Some i"
| "as_int (PBool b) = Some (if b then 1 else 0)"
| "as_int _ = None"

definition str_repeat :: "int \<Rightarrow> string \<Rightarrow> string" where
  "str_repeat n s = concat (replicate (nat n) s)"

definition py_mul :: "pyval \<Rightarrow> pyval \<Rightarrow> py_error + pyval" where
  "py_mul a b =
     (case (as_int a, as_int b) of
        (Some i, Some j) \<Rightarrow> Inr (PInt (i * j))
      | (Some i, None) \<Rightarrow> (case b of PStr s \<Rightarrow> Inr (PStr (str_repeat i s)) | _ \<Rightarrow> Inl TypeError)
      | (None, Some j) \<Rightarrow> (case a of PStr s \<Rightarrow> Inr (PStr (str_repeat j s)) | _ \<Rightarrow> Inl TypeError)
      | (None, None) \<Rightarrow> Inl TypeError)"

definition py_add :: "pyval \<Rightarrow> pyval \<Rightarrow> py_error + pyval" where
  "py_add a b =
     (case (as_int a, as_int b) of
        (Some i, Some j) \<Rightarrow> Inr (PInt (i + j))
      | (None, None) \<Rightarrow>
          (case (a, b) of (PStr s, PStr t) \<Rightarrow> Inr (PStr (s @ t)) | _ \<Rightarrow> Inl TypeError)
      | _ \<Rightarrow> Inl TypeError)"

section \<open>Data loaders (\<^verbatim>\<open>xreflection/data/__init__.py\<close>)\<close>

text \<open>
  \<^verbatim>\<open>worker_init_fn\<close> computes \<^verbatim>\<open>num_workers * rank + worker_id + seed\<close> and hands the
  result to \<^verbatim>\<open>np.random.seed\<close> and \<^verbatim>\<open>random.seed\<close>. The model returns that worker seed,
  or the exception the expression raises.
\<close>

definition worker_init_fn :: "pyval \<Rightarrow> pyval \<Rightarrow> pyval \<Rightarrow> pyval \<Rightarrow> py_error + pyval" where
  "worker_init_fn worker_id num_workers rank seed =
     (case py_mul num_workers rank of
        Inl e \<Rightarrow> Inl e
      | Inr a \<Rightarrow>
          (case py_add a worker_id of
             Inl e \<Rightarrow> Inl e
           | Inr b \<Rightarrow> py_add b seed))"

text \<open>
  The keyword arguments that \<^verbatim>\<open>build_dataloader\<close> collects in \<^verbatim>\<open>dataloader_args\<close>.
  Arguments that a phase does not pass take the default of the loader's constructor:
  no sampler, \<^verbatim>\<open>drop_last=False\<close>, \<^verbatim>\<open>phase=None\<close>, no \<^verbatim>\<open>worker_init_fn\<close>. The bound
  arguments of \<^verbatim>\<open>partial(worker_init_fn, num_workers=..., rank=..., seed=...)\<close> are kept as
  a triple.
\<close>

record ('ds, 'sm) dataloader_args =
  dataset :: 'ds
  batch_size :: pyval
  shuffle :: pyval
  num_workers :: pyval
  sampler :: "'sm option"
  drop_last :: bool
  phase :: pyval
  worker_init :: "(pyval \<times> pyval \<times> pyval) option"
  pin_memory :: pyval
  persistent_workers :: pyval

datatype ('ds, 'sm) loader =
    DataLoader "('ds, 'sm) dataloader_args"
  | PrefetchDataLoader pyval "('ds, 'sm) dataloader_args"

fun loader_args :: "('ds, 'sm) loader \<Rightarrow> ('ds, 'sm) dataloader_args" where
  "loader_args (DataLoader a) = a"
| "loader_args (PrefetchDataLoader q a) = a"

text \<open>
  \<^verbatim>\<open>os.environ.get('RANK', 0)\<close>: the environment holds strings, so the rank is the string
  stored under \<^verbatim>\<open>RANK\<close> when the variable is set and the integer 0 otherwise.
\<close>

definition environ_rank :: "string option \<Rightarrow> pyval" where
  "environ_rank env = (case env of None \<Rightarrow> PInt 0 | Some s \<Rightarrow> PStr s)"

text \<open>
  The statements of \<^verbatim>\<open>build_dataloader\<close> after the phase branch: they set \<^verbatim>\<open>pin_memory\<close> and
  \<^verbatim>\<open>persistent_workers\<close>, which the branches leave open, and choose the loader class.
\<close>

definition finish_loader :: "opts \<Rightarrow> ('ds, 'sm) dataloader_args \<Rightarrow> ('ds, 'sm) loader" where
  "finish_loader dataset_opt args0 =
     (let args = args0\<lparr>pin_memory := get_default dataset_opt ''pin_memory'' (PBool False),
                       persistent_workers := get_default dataset_opt ''persistent_workers'' (PBool False)\<rparr>;
          prefetch_mode = get_default dataset_opt ''prefetch_mode'' PNone
      in if prefetch_mode = PStr ''cpu''
         then PrefetchDataLoader (get_default dataset_opt ''num_prefetch_queue'' (PInt 1)) args
         else DataLoader args)"

definition build_dataloader ::
  "string option \<Rightarrow> 'ds \<Rightarrow> opts \<Rightarrow> pyval \<Rightarrow> 'sm option \<Rightarrow> py_error + ('ds, 'sm) loader" where
  "build_dataloader env ds dataset_opt seed smp =
     (case getitem dataset_opt ''phase'' of
        Inl e \<Rightarrow> Inl e
      | Inr ph \<Rightarrow>
          (let rank = environ_rank env in
           if ph = PStr ''train'' then
             (case getitem dataset_opt ''batch_size_per_gpu'' of
                Inl e \<Rightarrow> Inl e
              | Inr bs \<Rightarrow>
                  (case getitem dataset_opt ''num_worker_per_gpu'' of
                     Inl e \<Rightarrow> Inl e
                   | Inr nw \<Rightarrow>
                       Inr (finish_loader dataset_opt
                         \<lparr>dataset = ds, batch_size = bs,
                          shuffle = PBool (smp = None),
                          num_workers = nw, sampler = smp, drop_last = True, phase = ph,
                          worker_init = Some (nw, rank, seed),
                          pin_memory = PNone, persistent_workers = PNone\<rparr>)))
           else if ph \<in> set [PStr ''val'', PStr ''test''] then
             Inr (finish_loader dataset_opt
               \<lparr>dataset = ds, batch_size = PInt 1,
                shuffle = get_default dataset_opt ''use_shuffle'' (PBool False),
                num_workers = PInt 0, sampler = None, drop_last = False, phase = PNone,
                worker_init = None,
                pin_memory = PNone, persistent_workers = PNone\<rparr>)
           else
             Inl (ValueError (''Wrong dataset phase: '' @ py_str ph
                    @ ''. Supported ones are 'train', 'val' and 'test'.''))))"

text \<open>The seed that worker \<open>worker_id\<close> of a built loader receives.\<close>

definition loader_worker_seed :: "('ds, 'sm) loader \<Rightarrow> int \<Rightarrow> (py_error + pyval) option" where
  "loader_worker_seed ld worker_id =
     (case worker_init (loader_args ld) of
        None \<Rightarrow> None
      | Some (nw, rank, seed) \<Rightarrow> Some (worker_init_fn (PInt worker_id) nw rank seed))"

section \<open>Loading pretrained weights (\<^verbatim>\<open>BaseModel.load_weights\<close>)\<close>

text \<open>
  A Python dictionary keeps its keys in insertion order: it is an association list with
  distinct keys. Assigning to a present key replaces the value in place, assigning to a
  new key appends the entry (\<open>AList.update\<close>); \<^verbatim>\<open>pop\<close> removes the entry
  (\<open>AList.delete\<close>) and raises \<^verbatim>\<open>KeyError\<close> when the key is missing.
\<close>

definition is_dict :: "('k \<times> 'v) list \<Rightarrow> bool" where
  "is_dict d = distinct (map fst d)"

text \<open>
  A checkpoint maps strings to tensors or to nested mappings of the same kind (the weight
  snapshots stored under \<^verbatim>\<open>params\<close> and \<^verbatim>\<open>params_ema\<close>).
\<close>

datatype 't ckval = Tensor 't | StateDict "(string \<times> 't ckval) list"

text \<open>\<^verbatim>\<open>k in checkpoint\<close> and \<^verbatim>\<open>checkpoint[k]\<close> for a configured key, which is any Python value.\<close>

definition lookup_key :: "(string \<times> 'v) list \<Rightarrow> pyval \<Rightarrow> 'v option" where
  "lookup_key d k = (case k of PStr s \<Rightarrow> map_of d s | _ \<Rightarrow> None)"

text \<open>
  The four branches of the selection, named after the message each of them reports:
  the configured key, \<^verbatim>\<open>params_ema\<close>, \<^verbatim>\<open>params\<close>, or the entire checkpoint.
\<close>

datatype branch = ByParamKey | ByParamsEma | ByParams | WholeCheckpoint

definition select_weights :: "pyval \<Rightarrow> (string \<times> 't ckval) list \<Rightarrow> branch \<times> 't ckval" where
  "select_weights param_key checkpoint =
     (if lookup_key checkpoint param_key \<noteq> None then
        (ByParamKey, the (lookup_key checkpoint param_key))
      else if map_of checkpoint ''params_ema'' \<noteq> None \<and> param_key \<noteq> PStr ''params_ema'' then
        (ByParamsEma, the (map_of checkpoint ''params_ema''))
      else if map_of checkpoint ''params'' \<noteq> None \<and> param_key \<noteq> PStr ''params'' then
        (ByParams, the (map_of checkpoint ''params''))
      else
        (WholeCheckpoint, StateDict checkpoint))"

text \<open>\<^verbatim>\<open>k.startswith(p)\<close> and the slice \<^verbatim>\<open>k[len(p):]\<close>.\<close>

definition startswith :: "string \<Rightarrow> string \<Rightarrow> bool" where
  "startswith k p = (take (length p) k = p)"

definition strip_one :: "string \<Rightarrow> string \<Rightarrow> string" where
  "strip_one p k = (if startswith k p then drop (length p) k else k)"

text \<open>
  One renaming loop: it runs over a snapshot of the keys (\<^verbatim>\<open>list(weights.items())\<close>) and,
  for a key with the prefix, executes \<^verbatim>\<open>weights[k[len(p):]] = weights.pop(k)\<close> on the
  live mapping.
\<close>

fun strip_prefix_loop ::
  "string \<Rightarrow> string list \<Rightarrow> (string \<times> 'v) list \<Rightarrow> py_error + (string \<times> 'v) list" where
  "strip_prefix_loop p [] w = Inr w"
| "strip_prefix_loop p (k # ks) w =
     (if startswith k p then
        (case map_of w k of
           None \<Rightarrow> Inl (KeyError (PStr k))
         | Some v \<Rightarrow> strip_prefix_loop p ks (AList.update (drop (length p) k) v (AList.delete k w)))
      else strip_prefix_loop p ks w)"

definition strip_prefixes :: "(string \<times> 'v) list \<Rightarrow> py_error + (string \<times> 'v) list" where
  "strip_prefixes w =
     (case strip_prefix_loop ''_orig_mod.'' (map fst w) w of
        Inl e \<Rightarrow> Inl e
      | Inr w1 \<Rightarrow> strip_prefix_loop ''module.'' (map fst w1) w1)"

text \<open>
  \<^verbatim>\<open>load_weights\<close> up to the call of \<^verbatim>\<open>load_state_dict\<close>: the result is the branch taken
  and the mapping handed to the network. \<open>path_opt\<close> is \<^verbatim>\<open>self.opt['path']\<close>. Calling
  \<^verbatim>\<open>.items()\<close> on a selected value that is not a mapping raises \<^verbatim>\<open>AttributeError\<close>.
  Reading the file and applying the mapping to the network belong to the tensor library.
\<close>

definition load_weights ::
  "opts \<Rightarrow> (string \<times> 't ckval) list \<Rightarrow> py_error + branch \<times> (string \<times> 't ckval) list" where
  "load_weights path_opt checkpoint =
     (let param_key = get_default path_opt ''param_key_g'' (PStr ''params'');
          (br, weights) = select_weights param_key checkpoint
      in case weights of
           Tensor t \<Rightarrow> Inl (AttributeError ''items'')
         | StateDict w \<Rightarrow>
             (case strip_prefixes w of Inl e \<Rightarrow> Inl e | Inr w' \<Rightarrow> Inr (br, w')))"

text \<open>
  The renaming that the two loops are meant to perform on a single key, and the condition
  under which a loop meets no key twice: no key of the snapshot, once the prefix is
  removed, is itself a key of the snapshot.
\<close>

definition strip_key :: "string \<Rightarrow> string" where
  "strip_key k = strip_one ''module.'' (strip_one ''_orig_mod.'' k)"

definition no_clash :: "string \<Rightarrow> string list \<Rightarrow> bool" where
  "no_clash p ks = (\<forall>k \<in> set ks. startswith k p \<longrightarrow> drop (length p) k \<notin> set ks)"

definition rename_in :: "string \<Rightarrow> string list \<Rightarrow> string \<times> 'v \<Rightarrow> string \<times> 'v" where
  "rename_in p ks e = (if fst e \<in> set ks then strip_one p (fst e) else fst e, snd e)"

section \<open>Validation (\<^verbatim>\<open>BaseModel\<close>)\<close>

text \<open>
  A batch is a dictionary of which the step reads the entries \<^verbatim>\<open>input\<close>, \<^verbatim>\<open>inp_path\<close> and
  \<^verbatim>\<open>target_t\<close>; an absent entry is \<open>None\<close>.
\<close>

record 'tn batch =
  b_input :: "'tn option"
  b_inp_path :: "string list option"
  b_target_t :: "'tn option"

text \<open>
  What the step calls outside this class: the two networks (their last-stage image
  output), the channel slices \<^verbatim>\<open>[:, :3, ...]\<close> and \<^verbatim>\<open>[:, 3:, ...]\<close>, \<^verbatim>\<open>tensor2img\<close>,
  \<^verbatim>\<open>calculate_metric\<close> (\<open>Inl msg\<close> when it raises an exception whose text is \<open>msg\<close>), the
  body of the image-saving \<^verbatim>\<open>try\<close> block (\<open>Some msg\<close> when it raises) and
  \<^verbatim>\<open>osp.splitext(osp.basename(p))[0]\<close>. Metric values are real numbers.
\<close>

record ('tn, 'im, 'mo) externs =
  net_g :: "'tn \<Rightarrow> 'tn"
  ema_model :: "'tn \<Rightarrow> 'tn"
  first3 :: "'tn \<Rightarrow> 'tn"
  rest3 :: "'tn \<Rightarrow> 'tn"
  tensor2img :: "'tn list \<Rightarrow> 'im"
  calculate_metric :: "'im \<times> 'im \<Rightarrow> 'mo \<Rightarrow> string + real"
  save_images :: "string \<Rightarrow> string \<Rightarrow> 'im \<Rightarrow> 'im \<Rightarrow> string option"
  path_stem :: "string \<Rightarrow> string"

text \<open>\<^verbatim>\<open>self.opt['val']\<close> and the trainer's flag.\<close>

record 'mo val_opt =
  save_img :: bool
  metrics :: "(string \<times> 'mo) list option"

record 'mo step_env =
  is_global_zero :: bool
  opt_val :: "'mo val_opt option"

text \<open>
  The attributes of the module that validation reads and writes: the accumulator
  \<^verbatim>\<open>current_val_metrics\<close> (dataset name to metric name to list of values), the mapping
  \<^verbatim>\<open>val_dataset_names\<close> from loader index to dataset name, the EMA flag, and the warnings
  issued so far.
\<close>

type_synonym val_metrics = "(string \<times> (string \<times> real list) list) list"

record model_state =
  current_val_metrics :: val_metrics
  val_dataset_names :: "nat \<rightharpoonup> string"
  use_ema :: bool
  warnings :: "string list"

datatype 'tn step_result =
    StepError string
  | StepOutput 'tn 'tn string string

definition quote :: string where
  "quote = [CHR 0x27]"

definition warn :: "string \<Rightarrow> model_state \<Rightarrow> model_state" where
  "warn msg s = s\<lparr>warnings := warnings s @ [msg]\<rparr>"

definition testing :: "('tn, 'im, 'mo) externs \<Rightarrow> bool \<Rightarrow> 'tn \<Rightarrow> 'tn \<times> 'tn" where
  "testing ext ema inp =
     (let x_img_out_last = (if ema then ema_model ext inp else net_g ext inp)
      in (first3 ext x_img_out_last, rest3 ext x_img_out_last))"

definition metric_values :: "val_metrics \<Rightarrow> string \<Rightarrow> string \<Rightarrow> real list" where
  "metric_values acc ds name =
     (case map_of acc ds of
        None \<Rightarrow> []
      | Some ms \<Rightarrow> (case map_of ms name of None \<Rightarrow> [] | Some vs \<Rightarrow> vs))"

text \<open>
  The three statements that store one computed value: create the dataset's dictionary
  if it is missing, create the metric's list if it is missing, append.
\<close>

definition append_metric :: "string \<Rightarrow> string \<Rightarrow> real \<Rightarrow> val_metrics \<Rightarrow> val_metrics" where
  "append_metric ds name v acc =
     (let acc1 = (if map_of acc ds = None then AList.update ds [] acc else acc);
          ms = (case map_of acc1 ds of None \<Rightarrow> [] | Some m \<Rightarrow> m);
          ms1 = (if map_of ms name = None then AList.update name [] ms else ms);
          vs = (case map_of ms1 name of None \<Rightarrow> [] | Some l \<Rightarrow> l)
      in AList.update ds (AList.update name (vs @ [v]) ms1) acc1)"

definition metric_warning :: "string \<Rightarrow> string \<Rightarrow> string" where
  "metric_warning name e = ''Error calculating metric '' @ quote @ name @ quote @ '': '' @ e"

fun record_metrics ::
  "('tn, 'im, 'mo) externs \<Rightarrow> 'im \<times> 'im \<Rightarrow> string \<Rightarrow> (string \<times> 'mo) list \<Rightarrow>
   model_state \<Rightarrow> model_state" where
  "record_metrics ext metric_data ds [] s = s"
| "record_metrics ext metric_data ds ((name, mopt) # rest) s =
     record_metrics ext metric_data ds rest
       (case calculate_metric ext metric_data mopt of
          Inr metric_value \<Rightarrow>
            s\<lparr>current_val_metrics := append_metric ds name metric_value (current_val_metrics s)\<rparr>
        | Inl e \<Rightarrow> warn (metric_warning name e) s)"

definition image_name ::
  "('tn, 'im, 'mo) externs \<Rightarrow> 'tn batch \<Rightarrow> nat \<Rightarrow> model_state \<Rightarrow> string \<times> model_state" where
  "image_name ext batch batch_idx s =
     (case b_inp_path batch of
        Some (p # ps) \<Rightarrow> (path_stem ext p, s)
      | _ \<Rightarrow>
          (let img_name = ''sample_'' @ str_nat batch_idx
           in (img_name,
               warn (quote @ ''inp_path'' @ quote
                     @ '' key missing in batch, using fallback name: '' @ img_name) s)))"

definition save_validation_images ::
  "('tn, 'im, 'mo) externs \<Rightarrow> 'mo step_env \<Rightarrow> string \<Rightarrow> string \<Rightarrow> 'im \<Rightarrow> 'im \<Rightarrow>
   model_state \<Rightarrow> py_error + model_state" where
  "save_validation_images ext env dataset_name img_name clean_img reflection_img s =
     (if is_global_zero env then
        (case opt_val env of
           None \<Rightarrow> Inl (KeyError (PStr ''val''))
         | Some v \<Rightarrow>
             Inr (if save_img v then
                    (case save_images ext dataset_name img_name clean_img reflection_img of
                       None \<Rightarrow> s
                     | Some e \<Rightarrow> warn (''Error saving validation images: '' @ e) s)
                  else s))
      else Inr s)"

definition validation_step ::
  "('tn, 'im, 'mo) externs \<Rightarrow> 'mo step_env \<Rightarrow> 'tn batch \<Rightarrow> nat \<Rightarrow> nat \<Rightarrow> model_state \<Rightarrow>
   py_error + 'tn step_result \<times> model_state" where
  "validation_step ext env batch batch_idx dataloader_idx s =
     (case val_dataset_names s dataloader_idx of
        None \<Rightarrow> Inl (KeyError (PInt (int dataloader_idx)))
      | Some dataset_name \<Rightarrow>
     (case b_input batch of
        None \<Rightarrow>
          Inr (StepError ''Missing required key: input'',
               warn (''Required key '' @ quote @ ''input'' @ quote
                     @ '' missing from batch during validation'') s)
      | Some inp \<Rightarrow>
     (let (output_clean, output_reflection) = testing ext (use_ema s) inp;
          (img_name, s1) = image_name ext batch batch_idx s;
          clean_img = tensor2img ext [output_clean];
          reflection_img = tensor2img ext [output_reflection]
      in
     (case b_target_t batch of
        None \<Rightarrow> Inl (KeyError (PStr ''target_t''))
      | Some target_t \<Rightarrow>
     (let target_t_img = tensor2img ext [target_t];
          metric_data = (clean_img, target_t_img)
      in
     (case save_validation_images ext env dataset_name img_name clean_img reflection_img s1 of
        Inl e \<Rightarrow> Inl e
      | Inr s2 \<Rightarrow>
     (case opt_val env of
        None \<Rightarrow> Inl (KeyError (PStr ''val''))
      | Some v \<Rightarrow>
          Inr (StepOutput output_clean output_reflection img_name dataset_name,
               (case metrics v of
                  None \<Rightarrow> s2
                | Some ms \<Rightarrow> record_metrics ext metric_data dataset_name ms s2)))))))))"

text \<open>\<^verbatim>\<open>test_step\<close> forwards to \<^verbatim>\<open>validation_step\<close> with the default loader index 0.\<close>

definition test_step ::
  "('tn, 'im, 'mo) externs \<Rightarrow> 'mo step_env \<Rightarrow> 'tn batch \<Rightarrow> nat \<Rightarrow> model_state \<Rightarrow>
   py_error + 'tn step_result \<times> model_state" where
  "test_step ext env batch batch_idx s = validation_step ext env batch batch_idx 0 s"

text \<open>The trainer calls the step once per batch; an exception ends the epoch.\<close>

fun validation_steps ::
  "('tn, 'im, 'mo) externs \<Rightarrow> 'mo step_env \<Rightarrow> ('tn batch \<times> nat \<times> nat) list \<Rightarrow> model_state \<Rightarrow>
   py_error + model_state" where
  "validation_steps ext env [] s = Inr s"
| "validation_steps ext env ((batch, batch_idx, dataloader_idx) # rest) s =
     (case validation_step ext env batch batch_idx dataloader_idx s of
        Inl e \<Rightarrow> Inl e
      | Inr (r, s') \<Rightarrow> validation_steps ext env rest s')"

text \<open>
  \<^verbatim>\<open>setup\<close> empties the mapping of dataset names. Of a validation loader the epoch-start
  hook reads only \<^verbatim>\<open>loader.dataset.opt['name']\<close>: a loader is that name, or \<open>None\<close> when
  the dataset has no \<^verbatim>\<open>opt\<close> or \<^verbatim>\<open>opt\<close> has no \<^verbatim>\<open>name\<close>. \<^verbatim>\<open>trainer.val_dataloaders\<close> is a
  list of loaders or one loader; it is \<open>None\<close> when one of the two \<^verbatim>\<open>hasattr\<close> tests fails.
\<close>

definition setup_module :: "model_state \<Rightarrow> model_state" where
  "setup_module s = s\<lparr>val_dataset_names := Map.empty\<rparr>"

datatype val_dataloaders = LoaderList "string option list" | SingleLoader "string option"

fun name_loaders :: "nat \<Rightarrow> string option list \<Rightarrow> (nat \<rightharpoonup> string) \<Rightarrow> (nat \<rightharpoonup> string)" where
  "name_loaders idx [] names = names"
| "name_loaders idx (loader # rest) names =
     name_loaders (Suc idx) rest
       (names(idx \<mapsto> (case loader of Some n \<Rightarrow> n | None \<Rightarrow> ''val_'' @ str_nat idx)))"

definition on_validation_epoch_start :: "val_dataloaders option \<Rightarrow> model_state \<Rightarrow> model_state" where
  "on_validation_epoch_start vdl s =
     (let s0 = s\<lparr>current_val_metrics := []\<rparr>
      in case vdl of
           None \<Rightarrow> s0
         | Some (LoaderList ls) \<Rightarrow>
             s0\<lparr>val_dataset_names := name_loaders 0 ls (val_dataset_names s0)\<rparr>
         | Some (SingleLoader loader) \<Rightarrow>
             s0\<lparr>val_dataset_names :=
                  (val_dataset_names s0)(0 \<mapsto> (case loader of Some n \<Rightarrow> n | None \<Rightarrow> ''val''))\<rparr>)"

text \<open>The name the hook gives to the loader at position \<open>idx\<close> of a list.\<close>

definition listed_name :: "string option list \<Rightarrow> nat \<Rightarrow> string" where
  "listed_name ls idx = (case ls ! idx of Some n \<Rightarrow> n | None \<Rightarrow> ''val_'' @ str_nat idx)"

text \<open>
  \<^verbatim>\<open>on_validation_epoch_end\<close>. A scalar is written under the tag
  \<^verbatim>\<open>metrics/<dataset>/<metric>\<close> or \<^verbatim>\<open>metrics/average/<metric>\<close>; the report lists the calls
  of \<^verbatim>\<open>logger.experiment.add_scalar(tag, value, epoch)\<close> and of \<^verbatim>\<open>self.log(tag, value)\<close> in
  the order they are made. The running totals are the dictionary \<^verbatim>\<open>total_average_metrics\<close>
  with its entries \<^verbatim>\<open>val\<close> and \<^verbatim>\<open>counts\<close>. Dividing by the length of an empty list raises
  \<^verbatim>\<open>ZeroDivisionError\<close>. The text lines printed to the console are not part of the model.
\<close>

datatype scalar_tag = DatasetMetric string string | AverageMetric string

fun tag_string :: "scalar_tag \<Rightarrow> string" where
  "tag_string (DatasetMetric dataset_name metric_name) =
     ''metrics/'' @ dataset_name @ ''/'' @ metric_name"
| "tag_string (AverageMetric metric_name) = ''metrics/average/'' @ metric_name"

record epoch_report =
  add_scalars :: "(scalar_tag \<times> real \<times> nat) list"
  logged :: "(scalar_tag \<times> real) list"

type_synonym totals = "(string \<times> real \<times> nat) list"

fun log_dataset ::
  "nat \<Rightarrow> string \<Rightarrow> (string \<times> real list) list \<Rightarrow>
   (scalar_tag \<times> real \<times> nat) list \<times> totals \<Rightarrow>
   py_error + (scalar_tag \<times> real \<times> nat) list \<times> totals" where
  "log_dataset epoch dataset_name [] acc = Inr acc"
| "log_dataset epoch dataset_name ((metric_name, values) # rest) (sc, tot) =
     (if length values = 0 then Inl ZeroDivisionError
      else
        (let avg_value = sum_list values / real (length values);
             sc' = sc @ [(DatasetMetric dataset_name metric_name, avg_value, epoch)];
             tot' = (case map_of tot metric_name of
                       None \<Rightarrow> AList.update metric_name (sum_list values, length values) tot
                     | Some (v, c) \<Rightarrow>
                         AList.update metric_name (v + sum_list values, c + length values) tot)
         in log_dataset epoch dataset_name rest (sc', tot')))"

fun log_datasets ::
  "nat \<Rightarrow> val_metrics \<Rightarrow> (scalar_tag \<times> real \<times> nat) list \<times> totals \<Rightarrow>
   py_error + (scalar_tag \<times> real \<times> nat) list \<times> totals" where
  "log_datasets epoch [] acc = Inr acc"
| "log_datasets epoch ((dataset_name, ms) # rest) acc =
     (case log_dataset epoch dataset_name ms acc of
        Inl e \<Rightarrow> Inl e
      | Inr acc' \<Rightarrow> log_datasets epoch rest acc')"

fun total_averages :: "totals \<Rightarrow> py_error + (string \<times> real) list" where
  "total_averages [] = Inr []"
| "total_averages ((k, (v, c)) # rest) =
     (if c = 0 then Inl ZeroDivisionError
      else (case total_averages rest of
              Inl e \<Rightarrow> Inl e
            | Inr r \<Rightarrow> Inr ((k, v / real c) # r)))"

definition on_validation_epoch_end :: "nat \<Rightarrow> model_state \<Rightarrow> py_error + epoch_report" where
  "on_validation_epoch_end current_epoch s =
     (if current_val_metrics s = [] then Inr \<lparr>add_scalars = [], logged = []\<rparr>
      else
        (case log_datasets current_epoch (current_val_metrics s) ([], []) of
           Inl e \<Rightarrow> Inl e
         | Inr (sc, tot) \<Rightarrow>
             (case total_averages tot of
                Inl e \<Rightarrow> Inl e
              | Inr avgs \<Rightarrow>
                  Inr \<lparr>add_scalars =
                         sc @ map (\<lambda>(m, a). (AverageMetric m, a, current_epoch)) avgs,
                       logged = map (\<lambda>(m, a). (AverageMetric m, a)) avgs\<rparr>)))"

text \<open>
  The quantities the averages are compared with: the arithmetic mean of a list, all
  values accumulated for one metric over every dataset, in order, and the accumulators
  that the validation step builds (dictionaries whose value lists are never empty).
\<close>

definition mean :: "real list \<Rightarrow> real" where
  "mean vs = sum_list vs / real (length vs)"

definition pooled :: "val_metrics \<Rightarrow> string \<Rightarrow> real list" where
  "pooled acc m = concat (map (\<lambda>(ds, ms). case map_of ms m of None \<Rightarrow> [] | Some vs \<Rightarrow> vs) acc)"

definition per_dataset_scalars :: "nat \<Rightarrow> val_metrics \<Rightarrow> (scalar_tag \<times> real \<times> nat) list" where
  "per_dataset_scalars epoch acc =
     concat (map (\<lambda>(ds, ms). map (\<lambda>(m, vs). (DatasetMetric ds m, mean vs, epoch)) ms) acc)"

text \<open>One dataset's contribution \<open>vs\<close> to the running total \<open>t\<close> of a metric.\<close>

definition add_total :: "(real \<times> nat) option \<Rightarrow> real list \<Rightarrow> (real \<times> nat) option" where
  "add_total t vs =
     (if vs = [] then t
      else Some (case t of None \<Rightarrow> (sum_list vs, length vs)
                 | Some (v, c) \<Rightarrow> (v + sum_list vs, c + length vs)))"

definition wf_metrics :: "val_metrics \<Rightarrow> bool" where
  "wf_metrics acc =
     (is_dict acc \<and> (\<forall>(ds, ms) \<in> set acc. is_dict ms \<and> (\<forall>(m, vs) \<in> set ms. vs \<noteq> [])))"

section \<open>Optimizer and scheduler (\<^verbatim>\<open>BaseModel.configure_optimizers\<close>)\<close>

datatype optim_kind = Adam | AdamW | Adamax | SGD | ASGD | RMSprop | Rprop

datatype ('p, 'kw) optimizer = Optimizer optim_kind 'p 'kw

definition get_optimizer :: "pyval \<Rightarrow> 'p \<Rightarrow> 'kw \<Rightarrow> py_error + ('p, 'kw) optimizer" where
  "get_optimizer optim_type params kwargs =
     (if optim_type = PStr ''Adam'' then Inr (Optimizer Adam params kwargs)
      else if optim_type = PStr ''AdamW'' then Inr (Optimizer AdamW params kwargs)
      else if optim_type = PStr ''Adamax'' then Inr (Optimizer Adamax params kwargs)
      else if optim_type = PStr ''SGD'' then Inr (Optimizer SGD params kwargs)
      else if optim_type = PStr ''ASGD'' then Inr (Optimizer ASGD params kwargs)
      else if optim_type = PStr ''RMSprop'' then Inr (Optimizer RMSprop params kwargs)
      else if optim_type = PStr ''Rprop'' then Inr (Optimizer Rprop params kwargs)
      else Inl (NotImplementedError (''optimizer '' @ py_str optim_type @ '' is not supported yet.'')))"

text \<open>
  The two scheduler classes of the tensor library that the method instantiates, each
  with the optimizer and the scheduler options without their \<^verbatim>\<open>type\<close> entry.
\<close>

datatype 'o scheduler =
    is_MultiStepLR: MultiStepLR 'o opts
  | is_CosineAnnealingLR: CosineAnnealingLR 'o opts

record 'o optim_bundle =
  optimizer :: 'o
  lr_scheduler :: "'o scheduler"
  monitor :: pyval
  interval :: string
  frequency :: nat

text \<open>
  \<open>opt_train\<close> is \<^verbatim>\<open>self.opt['train']\<close> (its sub-dictionaries), \<open>opt_checkpoint\<close> is
  \<^verbatim>\<open>self.opt['checkpoint']\<close>, each \<open>None\<close> when absent. \<open>optimizer_params\<close> is what
  \<^verbatim>\<open>configure_optimizer_params\<close> returns: \<open>None\<close> in this class, whose method body is
  \<^verbatim>\<open>pass\<close>, so that unpacking it raises \<^verbatim>\<open>TypeError\<close>; in a subclass a dictionary with the
  optimizer type, the parameter groups and further keyword arguments.
\<close>

definition configure_optimizers ::
  "(string \<rightharpoonup> opts) option \<Rightarrow> opts option \<Rightarrow> (pyval \<times> 'p \<times> 'kw) option \<Rightarrow>
   py_error + ('p, 'kw) optimizer optim_bundle" where
  "configure_optimizers opt_train opt_checkpoint optimizer_params =
     (case opt_train of
        None \<Rightarrow> Inl (KeyError (PStr ''train''))
      | Some train_opt \<Rightarrow>
     (case optimizer_params of
        None \<Rightarrow> Inl TypeError
      | Some (optim_type, params, kwargs) \<Rightarrow>
     (case get_optimizer optim_type params kwargs of
        Inl e \<Rightarrow> Inl e
      | Inr optm \<Rightarrow>
     (case train_opt ''scheduler'' of
        None \<Rightarrow> Inl (KeyError (PStr ''scheduler''))
      | Some sched \<Rightarrow>
     (case getitem sched ''type'' of
        Inl e \<Rightarrow> Inl e
      | Inr scheduler_type \<Rightarrow>
     (let scheduler_config = sched(''type'' := None);
          monitor_metric =
            get_default (case opt_checkpoint of None \<Rightarrow> Map.empty | Some c \<Rightarrow> c)
              ''monitor'' (PStr ''val/psnr'');
          bundle = (\<lambda>sch. \<lparr>optimizer = optm, lr_scheduler = sch, monitor = monitor_metric,
                            interval = ''epoch'', frequency = 1\<rparr>)
      in if scheduler_type \<in> set [PStr ''MultiStepLR'', PStr ''MultiStepRestartLR'']
         then Inr (bundle (MultiStepLR optm scheduler_config))
         else if scheduler_type = PStr ''CosineAnnealingRestartLR''
         then Inr (bundle (CosineAnnealingLR optm scheduler_config))
         else Inl (NotImplementedError
                     (''Scheduler '' @ py_str scheduler_type @ '' is not implemented yet.''))))))))"

section \<open>Properties of the data loaders\<close>

text \<open>
  Claim C3. \<^verbatim>\<open>build_dataloader\<close> branches on the \<^verbatim>\<open>phase\<close> entry of the options. For
  \<^verbatim>\<open>train\<close> the loader takes its batch size and worker count from \<^verbatim>\<open>batch_size_per_gpu\<close>
  and \<^verbatim>\<open>num_worker_per_gpu\<close>, shuffles exactly when no sampler is supplied, and drops the
  last incomplete batch. For \<^verbatim>\<open>val\<close> and \<^verbatim>\<open>test\<close> it has batch size 1, no worker
  processes, the shuffle flag \<^verbatim>\<open>use_shuffle\<close> (false when absent), and drops nothing. Any
  other phase value raises \<^verbatim>\<open>ValueError\<close> with a message that contains the phase.
\<close>

theorem build_dataloader_phase_policy:
  "(dataset_opt ''phase'' = Some (PStr ''train'') \<and>
    dataset_opt ''batch_size_per_gpu'' = Some bs \<and>
    dataset_opt ''num_worker_per_gpu'' = Some nw \<longrightarrow>
      (\<exists>ld. build_dataloader env ds dataset_opt seed smp = Inr ld \<and>
            batch_size (loader_args ld) = bs \<and>
            num_workers (loader_args ld) = nw \<and>
            shuffle (loader_args ld) = PBool (smp = None) \<and>
            drop_last (loader_args ld)))
   \<and> (dataset_opt ''phase'' = Some ph \<and> (ph = PStr ''val'' \<or> ph = PStr ''test'') \<longrightarrow>
      (\<exists>ld. build_dataloader env ds dataset_opt seed smp = Inr ld \<and>
            batch_size (loader_args ld) = PInt 1 \<and>
            num_workers (loader_args ld) = PInt 0 \<and>
            shuffle (loader_args ld) = get_default dataset_opt ''use_shuffle'' (PBool False) \<and>
            \<not> drop_last (loader_args ld)))
   \<and> (dataset_opt ''phase'' = Some ph' \<and>
       ph' \<noteq> PStr ''train'' \<and> ph' \<noteq> PStr ''val'' \<and> ph' \<noteq> PStr ''test'' \<longrightarrow>
      build_dataloader env ds dataset_opt seed smp =
        Inl (ValueError (''Wrong dataset phase: '' @ py_str ph'
               @ ''. Supported ones are 'train', 'val' and 'test'.'')))"
  by (auto simp: build_dataloader_def getitem_def finish_loader_def Let_def)

theorem build_dataloader_phase_policy_witness:
  "(\<exists>ld. build_dataloader None ()
           [''phase'' \<mapsto> PStr ''train'', ''batch_size_per_gpu'' \<mapsto> PInt 4,
            ''num_worker_per_gpu'' \<mapsto> PInt 2] (PInt 7) (None :: unit option) = Inr ld \<and>
         batch_size (loader_args ld) = PInt 4 \<and> num_workers (loader_args ld) = PInt 2 \<and>
         shuffle (loader_args ld) = PBool True \<and> drop_last (loader_args ld))
   \<and> (\<exists>ld. build_dataloader None () [''phase'' \<mapsto> PStr ''val''] PNone (Some ()) = Inr ld \<and>
         batch_size (loader_args ld) = PInt 1 \<and> num_workers (loader_args ld) = PInt 0 \<and>
         shuffle (loader_args ld) = PBool False \<and> \<not> drop_last (loader_args ld))
   \<and> build_dataloader None () [''phase'' \<mapsto> PStr ''valid''] PNone (None :: unit option) =
        Inl (ValueError
          ''Wrong dataset phase: valid. Supported ones are 'train', 'val' and 'test'.'')"
  using build_dataloader_phase_policy [where
      dataset_opt = "[''phase'' \<mapsto> PStr ''train'', ''batch_size_per_gpu'' \<mapsto> PInt 4,
        ''num_worker_per_gpu'' \<mapsto> PInt 2]"
      and bs = "PInt 4" and nw = "PInt 2" and env = None and ds = "()" and seed = "PInt 7"
      and smp = "None :: unit option" and ph = "PStr ''train''" and ph' = "PStr ''train''"]
    build_dataloader_phase_policy [where
      dataset_opt = "[''phase'' \<mapsto> PStr ''val'']"
      and bs = PNone and nw = PNone and env = None and ds = "()" and seed = PNone
      and smp = "Some ()" and ph = "PStr ''val''" and ph' = "PStr ''val''"]
    build_dataloader_phase_policy [where
      dataset_opt = "[''phase'' \<mapsto> PStr ''valid'']"
      and bs = PNone and nw = PNone and env = None and ds = "()" and seed = PNone
      and smp = "None :: unit option" and ph = "PStr ''valid''" and ph' = "PStr ''valid''"]
  by (simp add: get_default_def)

text \<open>
  The worker seed on integers is the documented sum, and with \<^verbatim>\<open>RANK\<close> unset, two
  workers and seed 7 the workers receive 7 and 8.
\<close>

lemma worker_init_fn_ints:
  "worker_init_fn (PInt w) (PInt n) (PInt r) (PInt sd) = Inr (PInt (n * r + w + sd))"
  by (simp add: worker_init_fn_def py_mul_def py_add_def)

lemma build_dataloader_worker_seeds_rank_unset:
  "\<exists>ld. build_dataloader None ()
          [''phase'' \<mapsto> PStr ''train'', ''batch_size_per_gpu'' \<mapsto> PInt 4,
           ''num_worker_per_gpu'' \<mapsto> PInt 2] (PInt 7) (None :: unit option) = Inr ld
        \<and> loader_worker_seed ld 0 = Some (Inr (PInt 7))
        \<and> loader_worker_seed ld 1 = Some (Inr (PInt 8))"
  by (simp add: build_dataloader_def getitem_def finish_loader_def Let_def
      loader_worker_seed_def worker_init_fn_ints environ_rank_def)

text \<open>
  Claim C4. Every worker of a training loader is seeded with
  \<^verbatim>\<open>num_workers * rank + worker_id + seed\<close>. The rank that \<^verbatim>\<open>build_dataloader\<close> binds is
  read from the environment, where it is a string: with \<^verbatim>\<open>RANK=1\<close>, two workers and seed 7
  the product is the string \<^verbatim>\<open>11\<close>, adding the worker id raises \<^verbatim>\<open>TypeError\<close>, and worker
  0 gets no seed instead of \<open>2 * 1 + 0 + 7\<close>.
\<close>

theorem build_dataloader_worker_seed_rank_set:
  "\<exists>ld. build_dataloader (Some ''1'') ()
          [''phase'' \<mapsto> PStr ''train'', ''batch_size_per_gpu'' \<mapsto> PInt 4,
           ''num_worker_per_gpu'' \<mapsto> PInt 2] (PInt 7) (None :: unit option) = Inr ld
        \<and> loader_worker_seed ld 0 = Some (Inl TypeError)"
  by (simp add: build_dataloader_def getitem_def finish_loader_def Let_def
      loader_worker_seed_def worker_init_fn_def environ_rank_def py_mul_def py_add_def
      str_repeat_def)

section \<open>Properties of the weight loader\<close>

subsection \<open>Dictionary operations\<close>

lemma set_alist_delete: "set (AList.delete k w) = {x \<in> set w. fst x \<noteq> k}"
  by (auto simp: AList.delete_eq)

lemma alist_update_fresh: "k \<notin> fst ` set w \<Longrightarrow> AList.update k v w = w @ [(k, v)]"
  by (induction w) auto

lemma set_alist_update:
  "distinct (map fst al) \<Longrightarrow>
   set (AList.update k v al) \<subseteq> insert (k, v) {x \<in> set al. fst x \<noteq> k}"
proof (induction al)
  case Nil
  then show ?case by simp
next
  case (Cons a al)
  show ?case
  proof (cases "fst a = k")
    case True
    then have upd: "AList.update k v (a # al) = (k, v) # al" by (cases a) simp
    have "k \<notin> fst ` set al" using Cons.prems True by auto
    then have "\<forall>x \<in> set al. fst x \<noteq> k" by blast
    with upd show ?thesis by auto
  next
    case False
    with Cons show ?thesis by auto
  qed
qed

lemma startswith_drop_inj:
  "startswith a p \<Longrightarrow> startswith b p \<Longrightarrow> drop (length p) a = drop (length p) b \<Longrightarrow> a = b"
  by (metis append_take_drop_id startswith_def)

subsection \<open>The renaming loops\<close>

text \<open>
  A loop never fails on a dictionary: every key of the snapshot is still present when
  its turn comes, because only the key in turn is removed.
\<close>

lemma strip_prefix_loop_total:
  assumes "distinct (map fst w)" and "distinct ks" and "set ks \<subseteq> fst ` set w"
  shows "\<exists>w'. strip_prefix_loop p ks w = Inr w' \<and> distinct (map fst w')"
  using assms
proof (induction ks arbitrary: w)
  case Nil
  then show ?case by simp
next
  case (Cons k ks)
  show ?case
  proof (cases "startswith k p")
    case False
    with Cons.IH [of w] Cons.prems show ?thesis by simp
  next
    case True
    from Cons.prems(3) obtain v where v: "(k, v) \<in> set w" by auto
    with Cons.prems(1) have mv: "map_of w k = Some v" by simp
    define w2 where "w2 = AList.update (drop (length p) k) v (AList.delete k w)"
    have d2: "distinct (map fst w2)"
      unfolding w2_def using Cons.prems(1) by (simp add: distinct_update distinct_delete)
    have "set ks \<subseteq> fst ` set (AList.delete k w)"
      using Cons.prems(2,3) by (force simp: set_alist_delete)
    then have sub2: "set ks \<subseteq> fst ` set w2"
      unfolding w2_def by (auto simp: dom_update)
    from Cons.IH [OF d2 _ sub2] Cons.prems(2)
    obtain w' where "strip_prefix_loop p ks w2 = Inr w'" "distinct (map fst w')" by auto
    with True mv show ?thesis by (simp add: w2_def)
  qed
qed

lemma strip_prefixes_total:
  assumes "is_dict w"
  shows "\<exists>w'. strip_prefixes w = Inr w' \<and> is_dict w'"
proof -
  have d: "distinct (map fst w)" using assms by (simp add: is_dict_def)
  from strip_prefix_loop_total [OF d d, of "''_orig_mod.''"]
  obtain w1 where w1: "strip_prefix_loop ''_orig_mod.'' (map fst w) w = Inr w1"
    "distinct (map fst w1)" by auto
  from strip_prefix_loop_total [OF w1(2) w1(2), of "''module.''"]
  obtain w2 where "strip_prefix_loop ''module.'' (map fst w1) w1 = Inr w2"
    "distinct (map fst w2)" by auto
  with w1 show ?thesis by (simp add: strip_prefixes_def is_dict_def)
qed

text \<open>
  When no key of the remaining snapshot, with its prefix removed, is a key of the live
  mapping, the loop renames exactly the keys of the snapshot and keeps every value.
\<close>

lemma strip_prefix_loop_renames:
  assumes "distinct (map fst w)" and "distinct ks" and "set ks \<subseteq> fst ` set w"
    and "\<forall>k \<in> set ks. startswith k p \<longrightarrow> drop (length p) k \<notin> fst ` set w"
  shows "\<exists>w'. strip_prefix_loop p ks w = Inr w' \<and> distinct (map fst w') \<and>
           set w' = rename_in p ks ` set w"
  using assms
proof (induction ks arbitrary: w)
  case Nil
  have "rename_in p [] ` set w = set w"
    by (auto simp: rename_in_def image_iff)
  with Nil show ?case by simp
next
  case (Cons k ks)
  show ?case
  proof (cases "startswith k p")
    case False
    have sub: "set ks \<subseteq> fst ` set w" using Cons.prems(3) by simp
    have fresh: "\<forall>k \<in> set ks. startswith k p \<longrightarrow> drop (length p) k \<notin> fst ` set w"
      using Cons.prems(4) by simp
    from Cons.IH [OF Cons.prems(1) _ sub fresh] Cons.prems(2)
    obtain w' where w': "strip_prefix_loop p ks w = Inr w'" "distinct (map fst w')"
      "set w' = rename_in p ks ` set w" by auto
    have "rename_in p (k # ks) e = rename_in p ks e" for e :: "string \<times> 'a"
      using False by (simp add: rename_in_def strip_one_def)
    then have "rename_in p (k # ks) ` set w = rename_in p ks ` set w"
      by (intro image_cong) simp_all
    with w' False show ?thesis by simp
  next
    case True
    define k' where "k' = drop (length p) k"
    from Cons.prems(3) obtain v where v: "(k, v) \<in> set w" by auto
    with Cons.prems(1) have mv: "map_of w k = Some v" by simp
    have k'_fresh: "k' \<notin> fst ` set w" using Cons.prems(4) True by (simp add: k'_def)
    define w2 where "w2 = AList.update k' v (AList.delete k w)"
    have k'_fresh2: "k' \<notin> fst ` set (AList.delete k w)"
      using k'_fresh by (auto simp: set_alist_delete)
    have w2_eq: "w2 = AList.delete k w @ [(k', v)]"
      unfolding w2_def using k'_fresh2 by (rule alist_update_fresh)
    have set_w2: "set w2 = {x \<in> set w. fst x \<noteq> k} \<union> {(k', v)}"
      by (auto simp: w2_eq set_alist_delete)
    have d2: "distinct (map fst w2)"
      unfolding w2_def using Cons.prems(1) by (simp add: distinct_update distinct_delete)
    have k_notin: "k \<notin> set ks" and dks: "distinct ks" using Cons.prems(2) by simp_all
    have sub2: "set ks \<subseteq> fst ` set w2"
    proof
      fix a assume a: "a \<in> set ks"
      then have "a \<in> fst ` set w" using Cons.prems(3) by auto
      moreover have "a \<noteq> k" using a k_notin by auto
      ultimately show "a \<in> fst ` set w2" by (force simp: set_w2)
    qed
    have fresh2: "\<forall>a \<in> set ks. startswith a p \<longrightarrow> drop (length p) a \<notin> fst ` set w2"
    proof (intro ballI impI)
      fix a assume a: "a \<in> set ks" and ap: "startswith a p"
      have "drop (length p) a \<notin> fst ` set w" using Cons.prems(4) a ap by simp
      moreover have "drop (length p) a \<noteq> k'"
        using startswith_drop_inj [OF ap True] a k_notin by (auto simp: k'_def)
      ultimately show "drop (length p) a \<notin> fst ` set w2" by (auto simp: set_w2)
    qed
    from Cons.IH [OF d2 dks sub2 fresh2]
    obtain w' where w': "strip_prefix_loop p ks w2 = Inr w'" "distinct (map fst w')"
      "set w' = rename_in p ks ` set w2" by auto
    have k'_notin: "k' \<notin> set ks" using k'_fresh Cons.prems(3) by auto
    have key_k: "\<And>x. x \<in> set w \<Longrightarrow> fst x = k \<Longrightarrow> x = (k, v)"
      using Cons.prems(1) v by (metis eq_key_imp_eq_value prod.collapse)
    have "rename_in p ks ` set w2 = rename_in p (k # ks) ` set w"
    proof (intro set_eqI iffI)
      fix y assume "y \<in> rename_in p ks ` set w2"
      then obtain x where x: "x \<in> set w2" "y = rename_in p ks x" by auto
      show "y \<in> rename_in p (k # ks) ` set w"
      proof (cases "x = (k', v)")
        case True
        then have "y = (k', v)" using x k'_notin by (simp add: rename_in_def)
        also have "\<dots> = rename_in p (k # ks) (k, v)"
          using \<open>startswith k p\<close> by (simp add: rename_in_def strip_one_def k'_def)
        finally show ?thesis using v by blast
      next
        case False
        then have xw: "x \<in> set w" "fst x \<noteq> k" using x(1) by (auto simp: set_w2)
        then have "rename_in p (k # ks) x = rename_in p ks x" by (simp add: rename_in_def)
        then show ?thesis using x xw by force
      qed
    next
      fix y assume "y \<in> rename_in p (k # ks) ` set w"
      then obtain x where x: "x \<in> set w" "y = rename_in p (k # ks) x" by auto
      show "y \<in> rename_in p ks ` set w2"
      proof (cases "fst x = k")
        case True
        then have "x = (k, v)" using key_k x(1) by simp
        then have "y = (k', v)"
          using x(2) \<open>startswith k p\<close> by (simp add: rename_in_def strip_one_def k'_def)
        also have "\<dots> = rename_in p ks (k', v)" using k'_notin by (simp add: rename_in_def)
        finally show ?thesis by (auto simp: set_w2)
      next
        case False
        then have "x \<in> set w2" using x(1) by (simp add: set_w2)
        moreover have "rename_in p (k # ks) x = rename_in p ks x"
          using False by (simp add: rename_in_def)
        ultimately show ?thesis using x(2) by force
      qed
    qed
    with w' True mv show ?thesis by (simp add: w2_def k'_def)
  qed
qed

lemma rename_in_all:
  "fst ` set w \<subseteq> set ks \<Longrightarrow> rename_in p ks ` set w = (\<lambda>(k, v). (strip_one p k, v)) ` set w"
  by (intro image_cong) (auto simp: rename_in_def)

lemma strip_prefixes_renames:
  assumes "is_dict w"
    and "no_clash ''_orig_mod.'' (map fst w)"
    and "no_clash ''module.'' (map (strip_one ''_orig_mod.'') (map fst w))"
  shows "\<exists>w'. strip_prefixes w = Inr w' \<and> is_dict w' \<and>
           set w' = (\<lambda>(k, v). (strip_key k, v)) ` set w"
proof -
  have d: "distinct (map fst w)" using assms(1) by (simp add: is_dict_def)
  have f1: "\<forall>k \<in> set (map fst w). startswith k ''_orig_mod.'' \<longrightarrow>
      drop (length ''_orig_mod.'') k \<notin> fst ` set w"
    using assms(2) by (simp add: no_clash_def)
  from strip_prefix_loop_renames [OF d d _ f1]
  obtain w1 where w1: "strip_prefix_loop ''_orig_mod.'' (map fst w) w = Inr w1"
    "distinct (map fst w1)" "set w1 = rename_in ''_orig_mod.'' (map fst w) ` set w" by auto
  have s1: "set w1 = (\<lambda>(k, v). (strip_one ''_orig_mod.'' k, v)) ` set w"
    using w1(3) by (simp add: rename_in_all)
  have keys1: "fst ` set w1 = strip_one ''_orig_mod.'' ` fst ` set w"
    unfolding s1 by force
  have f2: "\<forall>k \<in> set (map fst w1). startswith k ''module.'' \<longrightarrow>
      drop (length ''module.'') k \<notin> fst ` set w1"
  proof (intro ballI impI)
    fix k assume k: "k \<in> set (map fst w1)" and sw: "startswith k ''module.''"
    from k have "k \<in> set (map (strip_one ''_orig_mod.'') (map fst w))"
      using keys1 by (simp add: image_image)
    with assms(3) sw
    have "drop (length ''module.'') k \<notin> set (map (strip_one ''_orig_mod.'') (map fst w))"
      unfolding no_clash_def by blast
    then show "drop (length ''module.'') k \<notin> fst ` set w1"
      using keys1 by (simp add: image_image)
  qed
  from strip_prefix_loop_renames [OF w1(2) w1(2) _ f2]
  obtain w2 where w2: "strip_prefix_loop ''module.'' (map fst w1) w1 = Inr w2"
    "distinct (map fst w2)" "set w2 = rename_in ''module.'' (map fst w1) ` set w1" by auto
  have "set w2 = (\<lambda>(k, v). (strip_one ''module.'' k, v)) ` set w1"
    using w2(3) by (simp add: rename_in_all)
  also have "\<dots> = (\<lambda>(k, v). (strip_key k, v)) ` set w"
    unfolding s1 by (force simp: strip_key_def)
  finally have "set w2 = (\<lambda>(k, v). (strip_key k, v)) ` set w" .
  with w1 w2 show ?thesis by (simp add: strip_prefixes_def is_dict_def)
qed

subsection \<open>Selecting the weights\<close>

text \<open>
  Claim C2. With \<open>pk\<close> the configured parameter key (\<^verbatim>\<open>params\<close> when none is configured),
  \<^verbatim>\<open>load_weights\<close> selects the first that exists of: the entry under \<open>pk\<close>; the entry
  under \<^verbatim>\<open>params_ema\<close>; the entry under \<^verbatim>\<open>params\<close>; the entire checkpoint. In the second
  and third case the configured key necessarily differs from the fallback key. The four
  conditions exclude each other and cover every checkpoint, so exactly one branch is
  taken. Whenever the selected value is a dictionary the loader returns without an error;
  a checkpoint that holds only \<^verbatim>\<open>params_ema\<close>, asked for \<^verbatim>\<open>params\<close>, yields the
  \<^verbatim>\<open>params_ema\<close> weights.
\<close>

theorem load_weights_selection_order:
  fixes checkpoint :: "(string \<times> 't ckval) list"
  shows
  "(lookup_key checkpoint (get_default path_opt ''param_key_g'' (PStr ''params'')) = Some w \<longrightarrow>
      select_weights (get_default path_opt ''param_key_g'' (PStr ''params'')) checkpoint
        = (ByParamKey, w))
   \<and> (lookup_key checkpoint (get_default path_opt ''param_key_g'' (PStr ''params'')) = None \<and>
       map_of checkpoint ''params_ema'' = Some w \<longrightarrow>
      get_default path_opt ''param_key_g'' (PStr ''params'') \<noteq> PStr ''params_ema'' \<and>
      select_weights (get_default path_opt ''param_key_g'' (PStr ''params'')) checkpoint
        = (ByParamsEma, w))
   \<and> (lookup_key checkpoint (get_default path_opt ''param_key_g'' (PStr ''params'')) = None \<and>
       map_of checkpoint ''params_ema'' = None \<and>
       map_of checkpoint ''params'' = Some w \<longrightarrow>
      get_default path_opt ''param_key_g'' (PStr ''params'') \<noteq> PStr ''params'' \<and>
      select_weights (get_default path_opt ''param_key_g'' (PStr ''params'')) checkpoint
        = (ByParams, w))
   \<and> (lookup_key checkpoint (get_default path_opt ''param_key_g'' (PStr ''params'')) = None \<and>
       map_of checkpoint ''params_ema'' = None \<and>
       map_of checkpoint ''params'' = None \<longrightarrow>
      select_weights (get_default path_opt ''param_key_g'' (PStr ''params'')) checkpoint
        = (WholeCheckpoint, StateDict checkpoint))
   \<and> (select_weights (get_default path_opt ''param_key_g'' (PStr ''params'')) checkpoint
         = (br, StateDict ws) \<and> is_dict ws \<longrightarrow>
      (\<exists>w'. load_weights path_opt checkpoint = Inr (br, w')))"
proof -
  have "\<exists>w'. load_weights path_opt checkpoint = Inr (br, w')"
    if "select_weights (get_default path_opt ''param_key_g'' (PStr ''params'')) checkpoint
         = (br, StateDict ws)" "is_dict ws"
  proof -
    from strip_prefixes_total [OF that(2)] obtain w' where "strip_prefixes ws = Inr w'" by auto
    with that(1) show ?thesis by (simp add: load_weights_def)
  qed
  moreover have "select_weights pk checkpoint = (ByParamKey, w)"
    if "lookup_key checkpoint pk = Some w" for pk
    using that by (simp add: select_weights_def)
  moreover have "pk \<noteq> PStr ''params_ema'' \<and> select_weights pk checkpoint = (ByParamsEma, w)"
    if "lookup_key checkpoint pk = None" "map_of checkpoint ''params_ema'' = Some w" for pk
    using that by (auto simp: select_weights_def lookup_key_def)
  moreover have "pk \<noteq> PStr ''params'' \<and> select_weights pk checkpoint = (ByParams, w)"
    if "lookup_key checkpoint pk = None" "map_of checkpoint ''params_ema'' = None"
      "map_of checkpoint ''params'' = Some w" for pk
    using that by (auto simp: select_weights_def lookup_key_def)
  moreover have "select_weights pk checkpoint = (WholeCheckpoint, StateDict checkpoint)"
    if "lookup_key checkpoint pk = None" "map_of checkpoint ''params_ema'' = None"
      "map_of checkpoint ''params'' = None" for pk
    using that by (simp add: select_weights_def)
  ultimately show ?thesis by blast
qed

theorem load_weights_selection_order_witness:
  "select_weights (PStr ''params'') [(''params'', StateDict [(''a'', Tensor (1::nat))])]
     = (ByParamKey, StateDict [(''a'', Tensor 1)])
   \<and> select_weights (PStr ''params'') [(''params_ema'', StateDict [(''module.a'', Tensor (1::nat))])]
     = (ByParamsEma, StateDict [(''module.a'', Tensor 1)])
   \<and> select_weights (PStr ''params_ema'') [(''params'', StateDict [(''a'', Tensor (1::nat))])]
     = (ByParams, StateDict [(''a'', Tensor 1)])
   \<and> select_weights (PStr ''params'') [(''a'', Tensor (1::nat))]
     = (WholeCheckpoint, StateDict [(''a'', Tensor 1)])
   \<and> (\<exists>w'. load_weights [''param_key_g'' \<mapsto> PStr ''params'']
              [(''params_ema'', StateDict [(''module.a'', Tensor (1::nat))])]
            = Inr (ByParamsEma, w'))"
  using load_weights_selection_order [where
      checkpoint = "[(''params'', StateDict [(''a'', Tensor (1::nat))])]"
      and path_opt = Map.empty and w = "StateDict [(''a'', Tensor 1)]"
      and br = ByParamKey and ws = "[(''a'', Tensor 1)]"]
    load_weights_selection_order [where
      checkpoint = "[(''params_ema'', StateDict [(''module.a'', Tensor (1::nat))])]"
      and path_opt = "[''param_key_g'' \<mapsto> PStr ''params'']"
      and w = "StateDict [(''module.a'', Tensor 1)]"
      and br = ByParamsEma and ws = "[(''module.a'', Tensor 1)]"]
    load_weights_selection_order [where
      checkpoint = "[(''params'', StateDict [(''a'', Tensor (1::nat))])]"
      and path_opt = "[''param_key_g'' \<mapsto> PStr ''params_ema'']"
      and w = "StateDict [(''a'', Tensor 1)]"
      and br = ByParams and ws = "[(''a'', Tensor 1)]"]
    load_weights_selection_order [where
      checkpoint = "[(''a'', Tensor (1::nat))]"
      and path_opt = Map.empty and w = "Tensor 1"
      and br = WholeCheckpoint and ws = "[(''a'', Tensor 1)]"]
  by (simp add: get_default_def lookup_key_def is_dict_def)

subsection \<open>Stripping the prefixes\<close>

text \<open>
  Claim C7, as the code has it. \<^verbatim>\<open>load_weights\<close> removes the prefix \<^verbatim>\<open>_orig_mod.\<close> and then
  the prefix \<^verbatim>\<open>module.\<close> from every key that carries it and keeps every tensor under its
  stripped key, keys without the prefixes staying as they are, provided that in neither
  pass a stripped key is already a key of the mapping: the mapping handed to the network
  is the selected one with \<open>strip_key\<close> applied to its keys.
\<close>

theorem load_weights_strips_prefixes:
  assumes "select_weights (get_default path_opt ''param_key_g'' (PStr ''params'')) checkpoint
             = (br, StateDict w)"
    and "is_dict w"
    and "no_clash ''_orig_mod.'' (map fst w)"
    and "no_clash ''module.'' (map (strip_one ''_orig_mod.'') (map fst w))"
  shows "\<exists>w'. load_weights path_opt checkpoint = Inr (br, w') \<and> is_dict w' \<and>
           set w' = (\<lambda>(k, v). (strip_key k, v)) ` set w"
proof -
  from strip_prefixes_renames [OF assms(2,3,4)]
  obtain w' where "strip_prefixes w = Inr w'" "is_dict w'"
    "set w' = (\<lambda>(k, v). (strip_key k, v)) ` set w" by auto
  with assms(1) show ?thesis by (simp add: load_weights_def)
qed

theorem load_weights_strips_prefixes_witness:
  "\<exists>w'. load_weights Map.empty
          [(''params'', StateDict [(''_orig_mod.module.foo'', Tensor (1::nat)), (''bar'', Tensor 2)])]
        = Inr (ByParamKey, w') \<and> is_dict w' \<and>
        set w' = {(''foo'', Tensor 1), (''bar'', Tensor 2)}"
proof -
  have sel: "select_weights (get_default Map.empty ''param_key_g'' (PStr ''params''))
      [(''params'', StateDict [(''_orig_mod.module.foo'', Tensor (1::nat)), (''bar'', Tensor 2)])]
    = (ByParamKey, StateDict [(''_orig_mod.module.foo'', Tensor 1), (''bar'', Tensor 2)])"
    by (simp add: select_weights_def get_default_def lookup_key_def)
  have d: "is_dict [(''_orig_mod.module.foo'', Tensor (1::nat)), (''bar'', Tensor 2)]"
    by (simp add: is_dict_def)
  have c1: "no_clash ''_orig_mod.''
      (map fst [(''_orig_mod.module.foo'', Tensor (1::nat)), (''bar'', Tensor 2)])"
    by (simp add: no_clash_def startswith_def)
  have c2: "no_clash ''module.'' (map (strip_one ''_orig_mod.'')
      (map fst [(''_orig_mod.module.foo'', Tensor (1::nat)), (''bar'', Tensor 2)]))"
    by (simp add: no_clash_def startswith_def strip_one_def)
  from load_weights_strips_prefixes [OF sel d c1 c2]
  show ?thesis by (simp add: strip_key_def strip_one_def startswith_def)
qed

text \<open>
  The claim as stated fails when a stripped key is already present. A mapping with the
  keys \<^verbatim>\<open>_orig_mod._orig_mod.x\<close> and \<^verbatim>\<open>_orig_mod.x\<close> should become one with the keys
  \<^verbatim>\<open>_orig_mod.x\<close> and \<^verbatim>\<open>x\<close>. The first renaming overwrites the second entry, which is then
  renamed in its turn: one entry remains, under \<^verbatim>\<open>x\<close>, with the tensor of the first key.
\<close>

theorem load_weights_prefix_clash:
  "load_weights Map.empty
     [(''params'', StateDict [(''_orig_mod._orig_mod.x'', Tensor (1::nat)), (''_orig_mod.x'', Tensor 2)])]
   = Inr (ByParamKey, [(''x'', Tensor 1)])
   \<and> strip_key ''_orig_mod._orig_mod.x'' = ''_orig_mod.x''
   \<and> strip_key ''_orig_mod.x'' = ''x''"
  by (simp add: load_weights_def select_weights_def get_default_def lookup_key_def
      strip_prefixes_def startswith_def strip_one_def strip_key_def)

section \<open>Properties of the validation step\<close>

subsection \<open>What each part of the step changes\<close>

lemma warn_fields [simp]:
  "current_val_metrics (warn m s) = current_val_metrics s"
  "val_dataset_names (warn m s) = val_dataset_names s"
  "use_ema (warn m s) = use_ema s"
  "warnings (warn m s) = warnings s @ [m]"
  by (simp_all add: warn_def)

lemma metric_values_append_metric:
  "metric_values (append_metric ds name v acc) ds' name' =
     (if ds' = ds \<and> name' = name then metric_values acc ds name @ [v]
      else metric_values acc ds' name')"
  by (auto simp: metric_values_def append_metric_def Let_def update_conv' split: option.splits)

lemma record_metrics_names [simp]:
  "val_dataset_names (record_metrics ext md ds ms s) = val_dataset_names s"
  by (induction ms arbitrary: s) (auto split: sum.splits)

lemma record_metrics_warnings_mono:
  "set (warnings s) \<subseteq> set (warnings (record_metrics ext md ds ms s))"
proof (induction ms arbitrary: s)
  case Nil
  then show ?case by simp
next
  case (Cons a ms)
  obtain name mopt where a: "a = (name, mopt)" by (cases a)
  show ?case
  proof (cases "calculate_metric ext md mopt")
    case (Inl e)
    with Cons.IH [of "warn (metric_warning name e) s"] a show ?thesis by auto
  next
    case (Inr v)
    with Cons.IH [of "s\<lparr>current_val_metrics := append_metric ds name v (current_val_metrics s)\<rparr>"] a
    show ?thesis by auto
  qed
qed

lemma record_metrics_other:
  "n \<notin> fst ` set ms \<Longrightarrow>
   metric_values (current_val_metrics (record_metrics ext md ds ms s)) ds n =
   metric_values (current_val_metrics s) ds n"
proof (induction ms arbitrary: s)
  case Nil
  then show ?case by simp
next
  case (Cons a ms)
  obtain name mopt where a: "a = (name, mopt)" by (cases a)
  from Cons.prems a have ne: "n \<noteq> name" and rest: "n \<notin> fst ` set ms" by auto
  show ?case
    using Cons.IH [OF rest] ne a
    by (cases "calculate_metric ext md mopt") (simp_all add: metric_values_append_metric)
qed

lemma record_metrics_this:
  assumes "distinct (map fst ms)" and "(n, mopt) \<in> set ms"
  shows "metric_values (current_val_metrics (record_metrics ext md ds ms s)) ds n =
         metric_values (current_val_metrics s) ds n @
           (case calculate_metric ext md mopt of Inr v \<Rightarrow> [v] | Inl e \<Rightarrow> [])"
  using assms
proof (induction ms arbitrary: s)
  case Nil
  then show ?case by simp
next
  case (Cons a ms)
  obtain name mo where a: "a = (name, mo)" by (cases a)
  show ?case
  proof (cases "(n, mopt) = a")
    case True
    then have eq: "name = n" "mo = mopt" using a by auto
    have nin: "n \<notin> fst ` set ms" using Cons.prems(1) a eq by auto
    show ?thesis
      using eq a
      by (cases "calculate_metric ext md mopt")
        (simp_all add: record_metrics_other [OF nin] metric_values_append_metric)
  next
    case False
    then have mem: "(n, mopt) \<in> set ms" using Cons.prems(2) by auto
    have d: "distinct (map fst ms)" using Cons.prems(1) by simp
    have ne: "n \<noteq> name" using Cons.prems(1) mem a by force
    from Cons.IH [OF d mem] ne a show ?thesis
      by (cases "calculate_metric ext md mo") (simp_all add: metric_values_append_metric)
  qed
qed

lemma record_metrics_warns:
  assumes "(n, mopt) \<in> set ms" and "calculate_metric ext md mopt = Inl e"
  shows "metric_warning n e \<in> set (warnings (record_metrics ext md ds ms s))"
  using assms(1)
proof (induction ms arbitrary: s)
  case Nil
  then show ?case by simp
next
  case (Cons a ms)
  obtain name mo where a: "a = (name, mo)" by (cases a)
  show ?case
  proof (cases "(n, mopt) = a")
    case True
    then have eq: "name = n" "mo = mopt" using a by auto
    have "metric_warning n e \<in> set (warnings (warn (metric_warning n e) s))" by simp
    with record_metrics_warnings_mono [of "warn (metric_warning n e) s" ext md ds ms]
    show ?thesis using a eq assms(2) by auto
  next
    case False
    then have "(n, mopt) \<in> set ms" using Cons.prems by auto
    from Cons.IH [OF this] a show ?thesis by simp
  qed
qed

lemma image_name_fields:
  "image_name ext batch bidx s = (nm, s1) \<Longrightarrow>
   current_val_metrics s1 = current_val_metrics s \<and> val_dataset_names s1 = val_dataset_names s"
  by (auto simp: image_name_def Let_def split: option.splits list.splits)

lemma save_validation_images_fields:
  "save_validation_images ext env dn nm ci ri s1 = Inr s2 \<Longrightarrow>
   current_val_metrics s2 = current_val_metrics s1 \<and> val_dataset_names s2 = val_dataset_names s1"
  by (auto simp: save_validation_images_def split: if_splits option.splits)

lemma save_validation_images_ok:
  "opt_val env = Some v \<Longrightarrow> \<exists>s2. save_validation_images ext env dn nm ci ri s1 = Inr s2"
  by (simp add: save_validation_images_def)

text \<open>No step writes the mapping of dataset names.\<close>

lemma validation_step_names:
  assumes "validation_step ext env batch bidx idx s = Inr (r, s')"
  shows "val_dataset_names s' = val_dataset_names s"
proof -
  obtain nm s1 where im: "image_name ext batch bidx s = (nm, s1)"
    by (cases "image_name ext batch bidx s")
  note f1 = image_name_fields [OF im]
  show ?thesis
    using assms f1 im
    by (auto simp: validation_step_def Let_def split: option.splits sum.splits prod.splits
        dest!: save_validation_images_fields)
qed

lemma validation_steps_names:
  "validation_steps ext env bs s = Inr s' \<Longrightarrow> val_dataset_names s' = val_dataset_names s"
proof (induction bs arbitrary: s)
  case Nil
  then show ?case by simp
next
  case (Cons b bs)
  obtain batch bidx idx where b: "b = (batch, bidx, idx)" by (cases b)
  from Cons.prems b obtain r s1 where
    st: "validation_step ext env batch bidx idx s = Inr (r, s1)"
    and rest: "validation_steps ext env bs s1 = Inr s'"
    by (auto split: sum.splits)
  from Cons.IH [OF rest] validation_step_names [OF st] show ?case by simp
qed

subsection \<open>The accumulator stays well formed\<close>

lemma wf_metrics_Nil: "wf_metrics []"
  by (simp add: wf_metrics_def is_dict_def)

lemma wf_metrics_append_metric:
  assumes "wf_metrics acc"
  shows "wf_metrics (append_metric ds name v acc)"
proof -
  define acc1 where "acc1 = (if map_of acc ds = None then AList.update ds [] acc else acc)"
  define ms where "ms = (case map_of acc1 ds of None \<Rightarrow> [] | Some m \<Rightarrow> m)"
  define ms1 where "ms1 = (if map_of ms name = None then AList.update name [] ms else ms)"
  define vs where "vs = (case map_of ms1 name of None \<Rightarrow> [] | Some l \<Rightarrow> l)"
  define M where "M = AList.update name (vs @ [v]) ms1"
  have res: "append_metric ds name v acc = AList.update ds M acc1"
    by (simp add: append_metric_def Let_def acc1_def ms_def ms1_def vs_def M_def)
  have dacc: "distinct (map fst acc)" using assms by (simp add: wf_metrics_def is_dict_def)
  have wf_in: "distinct (map fst m) \<and> (\<forall>(k, l) \<in> set m. l \<noteq> [])" if "(d, m) \<in> set acc" for d m
    using assms that by (auto simp: wf_metrics_def is_dict_def)
  have d1: "distinct (map fst acc1)"
    unfolding acc1_def using dacc by (simp add: distinct_update)
  have acc1_sub: "set acc1 \<subseteq> insert (ds, []) (set acc)"
    unfolding acc1_def using set_alist_update [OF dacc, of ds "[]"] by auto
  have ms_ok: "distinct (map fst ms) \<and> (\<forall>(k, l) \<in> set ms. l \<noteq> [])"
  proof (cases "map_of acc1 ds")
    case None
    then show ?thesis by (simp add: ms_def)
  next
    case (Some m)
    then have "(ds, m) \<in> set acc1" by (rule map_of_SomeD)
    with acc1_sub have "m = [] \<or> (ds, m) \<in> set acc" by auto
    then have "distinct (map fst m) \<and> (\<forall>(k, l) \<in> set m. l \<noteq> [])"
    proof
      assume "m = []"
      then show ?thesis by simp
    next
      assume "(ds, m) \<in> set acc"
      then show ?thesis by (rule wf_in)
    qed
    with Some show ?thesis by (simp add: ms_def)
  qed
  have dms1: "distinct (map fst ms1)"
    unfolding ms1_def using ms_ok by (simp add: distinct_update)
  have dms: "distinct (map fst ms)" using ms_ok by simp
  have ms1_sub: "{x \<in> set ms1. fst x \<noteq> name} \<subseteq> set ms"
    unfolding ms1_def using set_alist_update [OF dms, of name "[]"] by auto
  have M_ok: "distinct (map fst M) \<and> (\<forall>(k, l) \<in> set M. l \<noteq> [])"
  proof
    show "distinct (map fst M)" unfolding M_def using dms1 by (simp add: distinct_update)
    have "set M \<subseteq> insert (name, vs @ [v]) {x \<in> set ms1. fst x \<noteq> name}"
      unfolding M_def using dms1 by (rule set_alist_update)
    with ms1_sub have "set M \<subseteq> insert (name, vs @ [v]) (set ms)" by blast
    with ms_ok show "\<forall>(k, l) \<in> set M. l \<noteq> []" by auto
  qed
  have fin_sub: "set (AList.update ds M acc1) \<subseteq> insert (ds, M) (set acc)"
  proof
    fix x assume "x \<in> set (AList.update ds M acc1)"
    with set_alist_update [OF d1, of ds M] have "x = (ds, M) \<or> (x \<in> set acc1 \<and> fst x \<noteq> ds)"
      by blast
    with acc1_sub show "x \<in> insert (ds, M) (set acc)" by force
  qed
  have dist: "distinct (map fst (AList.update ds M acc1))" using d1 by (simp add: distinct_update)
  have each: "distinct (map fst m) \<and> (\<forall>(k, l) \<in> set m. l \<noteq> [])"
    if "(d, m) \<in> set (AList.update ds M acc1)" for d m
    using that fin_sub M_ok wf_in by blast
  have all: "\<forall>x \<in> set (AList.update ds M acc1).
      is_dict (snd x) \<and> (\<forall>y \<in> set (snd x). snd y \<noteq> [])"
  proof
    fix x assume "x \<in> set (AList.update ds M acc1)"
    then have "(fst x, snd x) \<in> set (AList.update ds M acc1)" by simp
    from each [OF this] show "is_dict (snd x) \<and> (\<forall>y \<in> set (snd x). snd y \<noteq> [])"
      by (auto simp: is_dict_def)
  qed
  show ?thesis
    unfolding res wf_metrics_def using dist all by (simp add: is_dict_def case_prod_beta)
qed

lemma wf_metrics_record_metrics:
  "wf_metrics (current_val_metrics s) \<Longrightarrow>
   wf_metrics (current_val_metrics (record_metrics ext md ds ms s))"
proof (induction ms arbitrary: s)
  case Nil
  then show ?case by simp
next
  case (Cons a ms)
  obtain name mopt where a: "a = (name, mopt)" by (cases a)
  show ?case
  proof (cases "calculate_metric ext md mopt")
    case (Inl e)
    with Cons.IH [of "warn (metric_warning name e) s"] Cons.prems a show ?thesis by simp
  next
    case (Inr v)
    with Cons.IH [of "s\<lparr>current_val_metrics := append_metric ds name v (current_val_metrics s)\<rparr>"]
      Cons.prems a
    show ?thesis by (simp add: wf_metrics_append_metric)
  qed
qed

lemma wf_metrics_validation_step:
  assumes "wf_metrics (current_val_metrics s)"
    and "validation_step ext env batch bidx idx s = Inr (r, s')"
  shows "wf_metrics (current_val_metrics s')"
proof -
  obtain nm s1 where im: "image_name ext batch bidx s = (nm, s1)"
    by (cases "image_name ext batch bidx s")
  have w1: "wf_metrics (current_val_metrics s1)"
    using image_name_fields [OF im] assms(1) by simp
  have w2: "wf_metrics (current_val_metrics s2)"
    if "save_validation_images ext env dn nm ci ri s1 = Inr s2" for dn ci ri s2
    using save_validation_images_fields [OF that] w1 by simp
  show ?thesis
    using assms im w2
    by (auto simp: validation_step_def Let_def wf_metrics_record_metrics
        split: option.splits sum.splits prod.splits)
qed

text \<open>
  Every accumulator that a validation epoch builds, from the epoch-start hook through
  any number of steps, is well formed: no list of values is empty.
\<close>

lemma wf_metrics_validation_epoch:
  "validation_steps ext env batches (on_validation_epoch_start vdl s0) = Inr s \<Longrightarrow>
   wf_metrics (current_val_metrics s)"
proof -
  have steps: "wf_metrics (current_val_metrics s1) \<Longrightarrow>
      validation_steps ext env bs s1 = Inr s2 \<Longrightarrow> wf_metrics (current_val_metrics s2)"
    for bs s1 s2
  proof (induction bs arbitrary: s1)
    case Nil
    then show ?case by simp
  next
    case (Cons b bs)
    obtain batch bidx idx where b: "b = (batch, bidx, idx)" by (cases b)
    from Cons.prems(2) b obtain r s3 where
      st: "validation_step ext env batch bidx idx s1 = Inr (r, s3)"
      and rest: "validation_steps ext env bs s3 = Inr s2"
      by (auto split: sum.splits)
    from Cons.IH [OF wf_metrics_validation_step [OF Cons.prems(1) st] rest] show ?case .
  qed
  have "current_val_metrics (on_validation_epoch_start vdl s0) = []"
    by (simp add: on_validation_epoch_start_def Let_def split: option.splits val_dataloaders.splits)
  then have "wf_metrics (current_val_metrics (on_validation_epoch_start vdl s0))"
    by (simp add: wf_metrics_Nil)
  then show "validation_steps ext env batches (on_validation_epoch_start vdl s0) = Inr s \<Longrightarrow>
      wf_metrics (current_val_metrics s)"
    by (rule steps)
qed

subsection \<open>A batch without input\<close>

text \<open>
  Claim C5, as the code has it. For a batch that lacks the \<^verbatim>\<open>input\<close> entry, and provided
  the mapping of dataset names has an entry for the step's loader index, the step returns
  the tagged result \<^verbatim>\<open>{'error': 'Missing required key: input'}\<close> and does not raise; it
  issues one warning and leaves the accumulator and the mapping as they were.
\<close>

theorem validation_step_missing_input:
  assumes "val_dataset_names s idx = Some dataset_name" and "b_input batch = None"
  shows "validation_step ext env batch bidx idx s =
           Inr (StepError ''Missing required key: input'',
                s\<lparr>warnings := warnings s @
                   [''Required key '' @ quote @ ''input'' @ quote
                    @ '' missing from batch during validation'']\<rparr>)"
  using assms by (simp add: validation_step_def warn_def)

theorem validation_step_missing_input_witness:
  "validation_step
     \<lparr>net_g = id, ema_model = id, first3 = id, rest3 = id, tensor2img = sum_list,
      calculate_metric = (\<lambda>md mo. Inr 0), save_images = (\<lambda>d n c r. None), path_stem = id\<rparr>
     \<lparr>is_global_zero = True, opt_val = Some \<lparr>save_img = False, metrics = Some [(''psnr'', ())]\<rparr>\<rparr>
     \<lparr>b_input = None, b_inp_path = None, b_target_t = Some (5::nat)\<rparr> 0 0
     \<lparr>current_val_metrics = [], val_dataset_names = [0 \<mapsto> ''dsA''], use_ema = False,
      warnings = []\<rparr>
   = Inr (StepError ''Missing required key: input'',
          \<lparr>current_val_metrics = [], val_dataset_names = [0 \<mapsto> ''dsA''], use_ema = False,
           warnings = [''Required key 'input' missing from batch during validation'']\<rparr>)"
proof -
  have n: "val_dataset_names
      \<lparr>current_val_metrics = [], val_dataset_names = [0 \<mapsto> ''dsA''], use_ema = False,
       warnings = []\<rparr> 0 = Some ''dsA''"
    by simp
  have b: "b_input \<lparr>b_input = None, b_inp_path = None, b_target_t = Some (5::nat)\<rparr> = None"
    by simp
  from validation_step_missing_input [OF n b, where bidx = 0 and
      ext = "\<lparr>net_g = id, ema_model = id, first3 = id, rest3 = id, tensor2img = sum_list,
        calculate_metric = (\<lambda>md mo. Inr 0), save_images = (\<lambda>d n c r. None), path_stem = id\<rparr>" and
      env = "\<lparr>is_global_zero = True,
        opt_val = Some \<lparr>save_img = False, metrics = Some [(''psnr'', ())]\<rparr>\<rparr>"]
  show ?thesis by (simp add: quote_def)
qed

text \<open>
  The claim as stated, for every batch without \<^verbatim>\<open>input\<close>, fails when the loader index
  has no entry in the mapping, as after \<^verbatim>\<open>setup\<close> and before any validation epoch has
  started: the step raises \<^verbatim>\<open>KeyError\<close>.
\<close>

theorem validation_step_unmapped_index:
  "validation_step
     \<lparr>net_g = id, ema_model = id, first3 = id, rest3 = id, tensor2img = sum_list,
      calculate_metric = (\<lambda>md mo. Inr 0), save_images = (\<lambda>d n c r. None), path_stem = id\<rparr>
     \<lparr>is_global_zero = True, opt_val = Some \<lparr>save_img = False, metrics = Some [(''psnr'', ())]\<rparr>\<rparr>
     \<lparr>b_input = None, b_inp_path = None, b_target_t = Some (5::nat)\<rparr> 0 0
     (setup_module \<lparr>current_val_metrics = [], val_dataset_names = Map.empty, use_ema = False,
      warnings = []\<rparr>)
   = Inl (KeyError (PInt 0))"
  by (simp add: validation_step_def setup_module_def)

text \<open>
  Claim C10. The step looks the dataset name up before it checks the batch: for a loader
  index without an entry in the mapping it raises \<^verbatim>\<open>KeyError\<close>, whatever the batch holds;
  and for a batch without \<^verbatim>\<open>input\<close> it returns the tagged error result if and only if the
  mapping has an entry for the index.
\<close>

theorem validation_step_lookup_first:
  "(val_dataset_names s idx = None \<longrightarrow>
      validation_step ext env batch bidx idx s = Inl (KeyError (PInt (int idx))))
   \<and> (b_input batch = None \<longrightarrow>
       ((\<exists>s'. validation_step ext env batch bidx idx s =
                Inr (StepError ''Missing required key: input'', s'))
        \<longleftrightarrow> val_dataset_names s idx \<noteq> None))"
  by (cases "val_dataset_names s idx") (auto simp: validation_step_def)

theorem validation_step_lookup_first_witness:
  "validation_step
     \<lparr>net_g = id, ema_model = id, first3 = id, rest3 = id, tensor2img = sum_list,
      calculate_metric = (\<lambda>md mo. Inr 0), save_images = (\<lambda>d n c r. None), path_stem = id\<rparr>
     \<lparr>is_global_zero = True, opt_val = Some \<lparr>save_img = False, metrics = Some [(''psnr'', ())]\<rparr>\<rparr>
     \<lparr>b_input = None, b_inp_path = None, b_target_t = Some (5::nat)\<rparr> 0 1
     \<lparr>current_val_metrics = [], val_dataset_names = [0 \<mapsto> ''dsA''], use_ema = False,
      warnings = []\<rparr>
   = Inl (KeyError (PInt 1))
   \<and> (\<nexists>s'. validation_step
     \<lparr>net_g = id, ema_model = id, first3 = id, rest3 = id, tensor2img = sum_list,
      calculate_metric = (\<lambda>md mo. Inr 0), save_images = (\<lambda>d n c r. None), path_stem = id\<rparr>
     \<lparr>is_global_zero = True, opt_val = Some \<lparr>save_img = False, metrics = Some [(''psnr'', ())]\<rparr>\<rparr>
     \<lparr>b_input = None, b_inp_path = None, b_target_t = Some (5::nat)\<rparr> 0 1
     \<lparr>current_val_metrics = [], val_dataset_names = [0 \<mapsto> ''dsA''], use_ema = False,
      warnings = []\<rparr>
   = Inr (StepError ''Missing required key: input'', s'))
   \<and> (\<exists>s'. validation_step
     \<lparr>net_g = id, ema_model = id, first3 = id, rest3 = id, tensor2img = sum_list,
      calculate_metric = (\<lambda>md mo. Inr 0), save_images = (\<lambda>d n c r. None), path_stem = id\<rparr>
     \<lparr>is_global_zero = True, opt_val = Some \<lparr>save_img = False, metrics = Some [(''psnr'', ())]\<rparr>\<rparr>
     \<lparr>b_input = None, b_inp_path = None, b_target_t = Some (5::nat)\<rparr> 0 0
     \<lparr>current_val_metrics = [], val_dataset_names = [0 \<mapsto> ''dsA''], use_ema = False,
      warnings = []\<rparr>
   = Inr (StepError ''Missing required key: input'', s'))"
  using validation_step_lookup_first [where idx = 1 and bidx = 0 and
      s = "\<lparr>current_val_metrics = [], val_dataset_names = [0 \<mapsto> ''dsA''], use_ema = False,
        warnings = []\<rparr>" and
      ext = "\<lparr>net_g = id, ema_model = id, first3 = id, rest3 = id, tensor2img = sum_list,
        calculate_metric = (\<lambda>md mo. Inr 0), save_images = (\<lambda>d n c r. None), path_stem = id\<rparr>" and
      env = "\<lparr>is_global_zero = True,
        opt_val = Some \<lparr>save_img = False, metrics = Some [(''psnr'', ())]\<rparr>\<rparr>" and
      batch = "\<lparr>b_input = None, b_inp_path = None, b_target_t = Some (5::nat)\<rparr>"]
    validation_step_lookup_first [where idx = 0 and bidx = 0 and
      s = "\<lparr>current_val_metrics = [], val_dataset_names = [0 \<mapsto> ''dsA''], use_ema = False,
        warnings = []\<rparr>" and
      ext = "\<lparr>net_g = id, ema_model = id, first3 = id, rest3 = id, tensor2img = sum_list,
        calculate_metric = (\<lambda>md mo. Inr 0), save_images = (\<lambda>d n c r. None), path_stem = id\<rparr>" and
      env = "\<lparr>is_global_zero = True,
        opt_val = Some \<lparr>save_img = False, metrics = Some [(''psnr'', ())]\<rparr>\<rparr>" and
      batch = "\<lparr>b_input = None, b_inp_path = None, b_target_t = Some (5::nat)\<rparr>"]
  by simp

text \<open>
  \<^verbatim>\<open>test_step\<close> meets the same lookup: on a module that has been set up and has not
  started a validation epoch it raises \<^verbatim>\<open>KeyError\<close> for every batch.
\<close>

lemma test_step_after_setup:
  "test_step ext env batch bidx (setup_module s) = Inl (KeyError (PInt 0))"
  by (simp add: test_step_def validation_step_def setup_module_def)

subsection \<open>Metrics that fail\<close>

text \<open>
  Claim C6. In a step that reaches the metrics (the loader index is mapped, the batch has
  \<^verbatim>\<open>input\<close> and \<^verbatim>\<open>target_t\<close>, and metrics are configured), every configured metric is
  computed from the clean image and the target image. If the computation returns a
  value, the value is appended to the accumulator under the dataset name and the metric
  name; if it raises, the metric is skipped and a warning naming it is issued. Neither
  outcome depends on what the other metrics of the step do.
\<close>

theorem validation_step_metrics_isolated:
  assumes "val_dataset_names s idx = Some dataset_name"
    and "b_input batch = Some inp"
    and "b_target_t batch = Some target_t"
    and "opt_val env = Some v"
    and "metrics v = Some ms"
    and "distinct (map fst ms)"
    and "(name, mopt) \<in> set ms"
  shows "\<exists>r s'. validation_step ext env batch bidx idx s = Inr (r, s') \<and>
           metric_values (current_val_metrics s') dataset_name name =
             metric_values (current_val_metrics s) dataset_name name @
               (case calculate_metric ext
                       (tensor2img ext [fst (testing ext (use_ema s) inp)],
                        tensor2img ext [target_t]) mopt of
                  Inr x \<Rightarrow> [x]
                | Inl e \<Rightarrow> []) \<and>
           (\<forall>e. calculate_metric ext
                   (tensor2img ext [fst (testing ext (use_ema s) inp)],
                    tensor2img ext [target_t]) mopt = Inl e \<longrightarrow>
                metric_warning name e \<in> set (warnings s'))"
proof -
  obtain oc orf where t: "testing ext (use_ema s) inp = (oc, orf)"
    by (cases "testing ext (use_ema s) inp")
  obtain nm s1 where im: "image_name ext batch bidx s = (nm, s1)"
    by (cases "image_name ext batch bidx s")
  define md where "md = (tensor2img ext [oc], tensor2img ext [target_t])"
  from save_validation_images_ok [OF assms(4), of ext dataset_name nm
      "tensor2img ext [oc]" "tensor2img ext [orf]" s1]
  obtain s2 where sv: "save_validation_images ext env dataset_name nm
      (tensor2img ext [oc]) (tensor2img ext [orf]) s1 = Inr s2" by blast
  have cv: "current_val_metrics s2 = current_val_metrics s"
    using save_validation_images_fields [OF sv] image_name_fields [OF im] by simp
  define s' where "s' = record_metrics ext md dataset_name ms s2"
  have step: "validation_step ext env batch bidx idx s =
      Inr (StepOutput oc orf nm dataset_name, s')"
    using assms(1-5) t im sv by (simp add: validation_step_def md_def s'_def)
  have vals: "metric_values (current_val_metrics s') dataset_name name =
      metric_values (current_val_metrics s) dataset_name name @
        (case calculate_metric ext md mopt of Inr x \<Rightarrow> [x] | Inl e \<Rightarrow> [])"
    unfolding s'_def
    using record_metrics_this [OF assms(6,7), of ext md dataset_name s2] cv by simp
  have wr: "metric_warning name e \<in> set (warnings s')"
    if "calculate_metric ext md mopt = Inl e" for e
    unfolding s'_def using record_metrics_warns [OF assms(7) that] .
  from step vals wr show ?thesis unfolding md_def using t by auto
qed

theorem validation_step_metrics_isolated_witness:
  "(\<exists>r s'. validation_step
       \<lparr>net_g = id, ema_model = id, first3 = id, rest3 = id, tensor2img = sum_list,
        calculate_metric = (\<lambda>md mo. if mo = ''bad_type'' then Inl ''unknown metric'' else Inr 30),
        save_images = (\<lambda>d n c r. None), path_stem = id\<rparr>
       \<lparr>is_global_zero = True,
        opt_val = Some \<lparr>save_img = False,
                        metrics = Some [(''broken'', ''bad_type''), (''psnr'', ''calculate_psnr'')]\<rparr>\<rparr>
       \<lparr>b_input = Some 4, b_inp_path = Some [''a.png''], b_target_t = Some (5::nat)\<rparr> 0 0
       \<lparr>current_val_metrics = [(''dsA'', [(''psnr'', [10])])], val_dataset_names = [0 \<mapsto> ''dsA''],
        use_ema = False, warnings = []\<rparr> = Inr (r, s') \<and>
     metric_values (current_val_metrics s') ''dsA'' ''psnr'' = [10, 30])
   \<and> (\<exists>r s'. validation_step
       \<lparr>net_g = id, ema_model = id, first3 = id, rest3 = id, tensor2img = sum_list,
        calculate_metric = (\<lambda>md mo. if mo = ''bad_type'' then Inl ''unknown metric'' else Inr 30),
        save_images = (\<lambda>d n c r. None), path_stem = id\<rparr>
       \<lparr>is_global_zero = True,
        opt_val = Some \<lparr>save_img = False,
                        metrics = Some [(''broken'', ''bad_type''), (''psnr'', ''calculate_psnr'')]\<rparr>\<rparr>
       \<lparr>b_input = Some 4, b_inp_path = Some [''a.png''], b_target_t = Some (5::nat)\<rparr> 0 0
       \<lparr>current_val_metrics = [(''dsA'', [(''psnr'', [10])])], val_dataset_names = [0 \<mapsto> ''dsA''],
        use_ema = False, warnings = []\<rparr> = Inr (r, s') \<and>
     metric_values (current_val_metrics s') ''dsA'' ''broken'' = [] \<and>
     metric_warning ''broken'' ''unknown metric'' \<in> set (warnings s'))"
  using validation_step_metrics_isolated [where idx = 0 and bidx = 0 and
      s = "\<lparr>current_val_metrics = [(''dsA'', [(''psnr'', [10])])], val_dataset_names = [0 \<mapsto> ''dsA''],
        use_ema = False, warnings = []\<rparr>" and dataset_name = "''dsA''" and
      batch = "\<lparr>b_input = Some 4, b_inp_path = Some [''a.png''], b_target_t = Some (5::nat)\<rparr>" and
      inp = 4 and target_t = 5 and
      env = "\<lparr>is_global_zero = True,
        opt_val = Some \<lparr>save_img = False,
                        metrics = Some [(''broken'', ''bad_type''), (''psnr'', ''calculate_psnr'')]\<rparr>\<rparr>" and
      v = "\<lparr>save_img = False,
        metrics = Some [(''broken'', ''bad_type''), (''psnr'', ''calculate_psnr'')]\<rparr>" and
      ms = "[(''broken'', ''bad_type''), (''psnr'', ''calculate_psnr'')]" and
      name = "''psnr''" and mopt = "''calculate_psnr''" and
      ext = "\<lparr>net_g = id, ema_model = id, first3 = id, rest3 = id, tensor2img = sum_list,
        calculate_metric = (\<lambda>md mo. if mo = ''bad_type'' then Inl ''unknown metric'' else Inr 30),
        save_images = (\<lambda>d n c r. None), path_stem = id\<rparr>"]
    validation_step_metrics_isolated [where idx = 0 and bidx = 0 and
      s = "\<lparr>current_val_metrics = [(''dsA'', [(''psnr'', [10])])], val_dataset_names = [0 \<mapsto> ''dsA''],
        use_ema = False, warnings = []\<rparr>" and dataset_name = "''dsA''" and
      batch = "\<lparr>b_input = Some 4, b_inp_path = Some [''a.png''], b_target_t = Some (5::nat)\<rparr>" and
      inp = 4 and target_t = 5 and
      env = "\<lparr>is_global_zero = True,
        opt_val = Some \<lparr>save_img = False,
                        metrics = Some [(''broken'', ''bad_type''), (''psnr'', ''calculate_psnr'')]\<rparr>\<rparr>" and
      v = "\<lparr>save_img = False,
        metrics = Some [(''broken'', ''bad_type''), (''psnr'', ''calculate_psnr'')]\<rparr>" and
      ms = "[(''broken'', ''bad_type''), (''psnr'', ''calculate_psnr'')]" and
      name = "''broken''" and mopt = "''bad_type''" and
      ext = "\<lparr>net_g = id, ema_model = id, first3 = id, rest3 = id, tensor2img = sum_list,
        calculate_metric = (\<lambda>md mo. if mo = ''bad_type'' then Inl ''unknown metric'' else Inr 30),
        save_images = (\<lambda>d n c r. None), path_stem = id\<rparr>"]
  by (simp add: metric_values_def)

section \<open>Properties of the epoch hooks\<close>

subsection \<open>The start of a validation epoch\<close>

lemma name_loaders_apply:
  "name_loaders k ls m i =
     (if k \<le> i \<and> i < k + length ls
      then Some (case ls ! (i - k) of Some n \<Rightarrow> n | None \<Rightarrow> ''val_'' @ str_nat i)
      else m i)"
proof (induction ls arbitrary: k m i)
  case Nil
  then show ?case by auto
next
  case (Cons l ls)
  show ?case
  proof (cases "i = k")
    case True
    then show ?thesis by (simp add: Cons.IH split: option.splits)
  next
    case False
    have nth: "k < i \<Longrightarrow> (l # ls) ! (i - k) = ls ! (i - Suc k)"
      by (simp add: nth_Cons')
    show ?thesis
    proof (cases "k < i")
      case True
      with nth show ?thesis by (simp add: Cons.IH)
    next
      case False
      with \<open>i \<noteq> k\<close> show ?thesis by (simp add: Cons.IH)
    qed
  qed
qed

text \<open>
  Claim C9, as the code has it. The epoch-start hook empties the accumulator. From a list
  of active loaders it maps every index of the list to the loader's configured dataset
  name, or to \<^verbatim>\<open>val_<index>\<close> when there is none; from a single loader it maps index 0 to
  the configured name, or to \<^verbatim>\<open>val\<close>. Entries of other indices are left as they were, so
  the entries are exactly those of the active loaders when the mapping was empty before,
  as it is after \<^verbatim>\<open>setup\<close>. The steps of the epoch do not change the mapping.
\<close>

theorem on_validation_epoch_start_effect:
  "current_val_metrics (on_validation_epoch_start vdl s) = []
   \<and> (vdl = Some (LoaderList ls) \<longrightarrow>
       (\<forall>i. val_dataset_names (on_validation_epoch_start vdl s) i =
          (if i < length ls then Some (listed_name ls i) else val_dataset_names s i)))
   \<and> (vdl = Some (SingleLoader loader) \<longrightarrow>
       (\<forall>i. val_dataset_names (on_validation_epoch_start vdl s) i =
          (if i = 0 then Some (case loader of Some n \<Rightarrow> n | None \<Rightarrow> ''val'')
           else val_dataset_names s i)))
   \<and> (vdl = Some (LoaderList ls) \<and> val_dataset_names s = Map.empty \<longrightarrow>
       dom (val_dataset_names (on_validation_epoch_start vdl s)) = {..<length ls})
   \<and> (validation_steps ext env batches (on_validation_epoch_start vdl s) = Inr s' \<longrightarrow>
       val_dataset_names s' = val_dataset_names (on_validation_epoch_start vdl s))"
proof -
  have a: "current_val_metrics (on_validation_epoch_start vdl s) = []"
    by (simp add: on_validation_epoch_start_def Let_def split: option.splits val_dataloaders.splits)
  have b: "val_dataset_names (on_validation_epoch_start (Some (LoaderList ls)) s) i =
       (if i < length ls then Some (listed_name ls i) else val_dataset_names s i)" for i
    by (simp add: on_validation_epoch_start_def name_loaders_apply listed_name_def)
  have c: "val_dataset_names (on_validation_epoch_start (Some (SingleLoader loader)) s) i =
       (if i = 0 then Some (case loader of Some n \<Rightarrow> n | None \<Rightarrow> ''val'')
        else val_dataset_names s i)" for i
    by (simp add: on_validation_epoch_start_def)
  have d: "dom (val_dataset_names (on_validation_epoch_start (Some (LoaderList ls)) s)) = {..<length ls}"
    if "val_dataset_names s = Map.empty"
    using that b by (auto simp: dom_def)
  have e: "val_dataset_names s' = val_dataset_names (on_validation_epoch_start vdl s)"
    if "validation_steps ext env batches (on_validation_epoch_start vdl s) = Inr s'"
    using that by (rule validation_steps_names)
  from a b c d e show ?thesis by blast
qed

theorem on_validation_epoch_start_effect_witness:
  "val_dataset_names
     (on_validation_epoch_start (Some (LoaderList [Some ''dsA'', None]))
        (setup_module \<lparr>current_val_metrics = [(''old'', [(''psnr'', [1])])],
                       val_dataset_names = [5 \<mapsto> ''gone''], use_ema = False, warnings = []\<rparr>)) 1
     = Some ''val_1''
   \<and> dom (val_dataset_names
       (on_validation_epoch_start (Some (LoaderList [Some ''dsA'', None]))
          (setup_module \<lparr>current_val_metrics = [(''old'', [(''psnr'', [1])])],
                         val_dataset_names = [5 \<mapsto> ''gone''], use_ema = False, warnings = []\<rparr>)))
     = {..<2}
   \<and> val_dataset_names
       (on_validation_epoch_start (Some (SingleLoader None))
          (setup_module \<lparr>current_val_metrics = [(''old'', [(''psnr'', [1])])],
                         val_dataset_names = [5 \<mapsto> ''gone''], use_ema = False, warnings = []\<rparr>)) 0
     = Some ''val''
   \<and> val_dataset_names
       \<lparr>current_val_metrics = [(''val_1'', [(''psnr'', [30])])],
        val_dataset_names = [0 \<mapsto> ''dsA'', 1 \<mapsto> ''val_1''], use_ema = False, warnings = []\<rparr>
     = val_dataset_names
         (on_validation_epoch_start (Some (LoaderList [Some ''dsA'', None]))
            (setup_module \<lparr>current_val_metrics = [(''old'', [(''psnr'', [1])])],
                           val_dataset_names = [5 \<mapsto> ''gone''], use_ema = False, warnings = []\<rparr>))"
proof -
  have run: "validation_steps
      \<lparr>net_g = id, ema_model = id, first3 = id, rest3 = id, tensor2img = sum_list,
       calculate_metric = (\<lambda>md mo. Inr 30), save_images = (\<lambda>d n c r. None), path_stem = id\<rparr>
      \<lparr>is_global_zero = True, opt_val = Some \<lparr>save_img = False, metrics = Some [(''psnr'', ())]\<rparr>\<rparr>
      [(\<lparr>b_input = Some 4, b_inp_path = Some [''a''], b_target_t = Some (5::nat)\<rparr>, 0, 1)]
      (on_validation_epoch_start (Some (LoaderList [Some ''dsA'', None]))
         (setup_module \<lparr>current_val_metrics = [(''old'', [(''psnr'', [1])])],
                        val_dataset_names = [5 \<mapsto> ''gone''], use_ema = False, warnings = []\<rparr>))
    = Inr \<lparr>current_val_metrics = [(''val_1'', [(''psnr'', [30])])],
           val_dataset_names = [0 \<mapsto> ''dsA'', 1 \<mapsto> ''val_1''], use_ema = False, warnings = []\<rparr>"
    by (simp add: on_validation_epoch_start_def setup_module_def validation_step_def
        testing_def image_name_def save_validation_images_def append_metric_def str_nat.simps)
  show ?thesis
    using run
      on_validation_epoch_start_effect [where
        vdl = "Some (LoaderList [Some ''dsA'', None])" and ls = "[Some ''dsA'', None]" and
        loader = None and
        s = "setup_module \<lparr>current_val_metrics = [(''old'', [(''psnr'', [1])])],
              val_dataset_names = [5 \<mapsto> ''gone''], use_ema = False, warnings = []\<rparr>" and
        ext = "\<lparr>net_g = id, ema_model = id, first3 = id, rest3 = id, tensor2img = sum_list,
          calculate_metric = (\<lambda>md mo. Inr 30), save_images = (\<lambda>d n c r. None),
          path_stem = id\<rparr>" and
        env = "\<lparr>is_global_zero = True,
          opt_val = Some \<lparr>save_img = False, metrics = Some [(''psnr'', ())]\<rparr>\<rparr>" and
        batches = "[(\<lparr>b_input = Some 4, b_inp_path = Some [''a''], b_target_t = Some (5::nat)\<rparr>, 0, 1)]" and
        s' = "\<lparr>current_val_metrics = [(''val_1'', [(''psnr'', [30])])],
          val_dataset_names = [0 \<mapsto> ''dsA'', 1 \<mapsto> ''val_1''], use_ema = False, warnings = []\<rparr>"]
      on_validation_epoch_start_effect [where
        vdl = "Some (SingleLoader None)" and ls = "[]" and loader = None and
        s = "setup_module \<lparr>current_val_metrics = [(''old'', [(''psnr'', [1])])],
              val_dataset_names = [5 \<mapsto> ''gone''], use_ema = False, warnings = []\<rparr>" and
        ext = "\<lparr>net_g = id, ema_model = id, first3 = id, rest3 = id, tensor2img = sum_list,
          calculate_metric = (\<lambda>md mo. Inr 30), save_images = (\<lambda>d n c r. None),
          path_stem = id\<rparr>" and
        env = "\<lparr>is_global_zero = True,
          opt_val = Some \<lparr>save_img = False, metrics = Some [(''psnr'', ())]\<rparr>\<rparr>" and
        batches = "[] :: (nat batch \<times> nat \<times> nat) list" and
        s' = "on_validation_epoch_start (Some (SingleLoader None))
          (setup_module \<lparr>current_val_metrics = [(''old'', [(''psnr'', [1])])],
              val_dataset_names = [5 \<mapsto> ''gone''], use_ema = False, warnings = []\<rparr>)"]
    by (simp add: setup_module_def listed_name_def str_nat.simps)
qed

text \<open>
  The claim as stated fails when the set of active loaders shrinks between two epochs:
  after an epoch with two loaders and one with a single loader in a list, index 1 still
  has the name of the second loader of the earlier epoch.
\<close>

theorem on_validation_epoch_start_stale_entry:
  "val_dataset_names
     (on_validation_epoch_start (Some (LoaderList [Some ''dsA'']))
        (on_validation_epoch_start (Some (LoaderList [Some ''dsA'', Some ''dsB'']))
           (setup_module \<lparr>current_val_metrics = [], val_dataset_names = Map.empty,
                          use_ema = False, warnings = []\<rparr>))) 1
   = Some ''dsB''"
  by (simp add: on_validation_epoch_start_def setup_module_def)

subsection \<open>The end of a validation epoch\<close>

lemma add_total_append: "add_total (add_total t vs) ws = add_total t (vs @ ws)"
  by (auto simp: add_total_def split: option.splits)

text \<open>
  One dataset: a scalar with the mean is written for each of its metrics, in order, and
  each metric's running total grows by the sum and the number of the dataset's values.
\<close>

lemma log_dataset_result:
  assumes "distinct (map fst ms)" and "\<forall>(m, vs) \<in> set ms. vs \<noteq> []" and "distinct (map fst tot)"
  shows "\<exists>tot'. log_dataset epoch ds ms (sc, tot) =
            Inr (sc @ map (\<lambda>(m, vs). (DatasetMetric ds m, mean vs, epoch)) ms, tot') \<and>
          distinct (map fst tot') \<and>
          (\<forall>m. map_of tot' m =
             add_total (map_of tot m) (case map_of ms m of None \<Rightarrow> [] | Some vs \<Rightarrow> vs))"
  using assms
proof (induction ms arbitrary: sc tot)
  case Nil
  then show ?case by (simp add: add_total_def)
next
  case (Cons a ms)
  obtain mn vs where a: "a = (mn, vs)" by (cases a)
  have ne: "vs \<noteq> []" using Cons.prems(2) a by auto
  have d: "distinct (map fst ms)" and nin: "mn \<notin> fst ` set ms"
    using Cons.prems(1) a by auto
  have rest: "\<forall>(m, vs) \<in> set ms. vs \<noteq> []" using Cons.prems(2) by simp
  define tot1 where "tot1 =
     (case map_of tot mn of
        None \<Rightarrow> AList.update mn (sum_list vs, length vs) tot
      | Some (v, c) \<Rightarrow> AList.update mn (v + sum_list vs, c + length vs) tot)"
  have d1: "distinct (map fst tot1)"
    unfolding tot1_def using Cons.prems(3) by (auto simp: distinct_update split: option.splits)
  have m1: "map_of tot1 m = (if m = mn then add_total (map_of tot mn) vs else map_of tot m)" for m
    unfolding tot1_def using ne
    by (auto simp: update_conv' add_total_def split: option.splits)
  from Cons.IH [OF d rest d1, of "sc @ [(DatasetMetric ds mn, mean vs, epoch)]"]
  obtain tot' where r: "log_dataset epoch ds ms (sc @ [(DatasetMetric ds mn, mean vs, epoch)], tot1) =
       Inr ((sc @ [(DatasetMetric ds mn, mean vs, epoch)])
              @ map (\<lambda>(m, vs). (DatasetMetric ds m, mean vs, epoch)) ms, tot')"
    and d': "distinct (map fst tot')"
    and m': "\<forall>m. map_of tot' m =
       add_total (map_of tot1 m) (case map_of ms m of None \<Rightarrow> [] | Some vs \<Rightarrow> vs)"
    by blast
  have step: "log_dataset epoch ds (a # ms) (sc, tot) =
      log_dataset epoch ds ms (sc @ [(DatasetMetric ds mn, mean vs, epoch)], tot1)"
    using ne a by (simp add: tot1_def mean_def Let_def)
  have none: "map_of ms mn = None" using nin by (simp add: map_of_eq_None_iff)
  have "map_of tot' m =
      add_total (map_of tot m) (case map_of (a # ms) m of None \<Rightarrow> [] | Some vs \<Rightarrow> vs)" for m
  proof (cases "m = mn")
    case True
    then show ?thesis using m' m1 none a by (simp add: add_total_def)
  next
    case False
    then show ?thesis using m' m1 a by simp
  qed
  with step r d' a show ?case by simp
qed

lemma log_datasets_result:
  assumes "wf_metrics acc" and "distinct (map fst tot)"
  shows "\<exists>tot'. log_datasets epoch acc (sc, tot) = Inr (sc @ per_dataset_scalars epoch acc, tot') \<and>
          distinct (map fst tot') \<and>
          (\<forall>m. map_of tot' m = add_total (map_of tot m) (pooled acc m))"
  using assms
proof (induction acc arbitrary: sc tot)
  case Nil
  then show ?case by (simp add: per_dataset_scalars_def pooled_def add_total_def)
next
  case (Cons a acc)
  obtain ds ms where a: "a = (ds, ms)" by (cases a)
  from Cons.prems(1) a have dm: "distinct (map fst ms)" and ne: "\<forall>(m, vs) \<in> set ms. vs \<noteq> []"
    and wf: "wf_metrics acc"
    by (auto simp: wf_metrics_def is_dict_def)
  from log_dataset_result [OF dm ne Cons.prems(2), of epoch ds sc]
  obtain tot1 where r1: "log_dataset epoch ds ms (sc, tot) =
       Inr (sc @ map (\<lambda>(m, vs). (DatasetMetric ds m, mean vs, epoch)) ms, tot1)"
    and d1: "distinct (map fst tot1)"
    and m1: "\<forall>m. map_of tot1 m =
       add_total (map_of tot m) (case map_of ms m of None \<Rightarrow> [] | Some vs \<Rightarrow> vs)"
    by blast
  from Cons.IH [OF wf d1, of "sc @ map (\<lambda>(m, vs). (DatasetMetric ds m, mean vs, epoch)) ms"]
  obtain tot' where r: "log_datasets epoch acc
        (sc @ map (\<lambda>(m, vs). (DatasetMetric ds m, mean vs, epoch)) ms, tot1) =
       Inr ((sc @ map (\<lambda>(m, vs). (DatasetMetric ds m, mean vs, epoch)) ms)
              @ per_dataset_scalars epoch acc, tot')"
    and d': "distinct (map fst tot')"
    and m': "\<forall>m. map_of tot' m = add_total (map_of tot1 m) (pooled acc m)"
    by blast
  have "map_of tot' m = add_total (map_of tot m) (pooled (a # acc) m)" for m
    using m' m1 a by (simp add: add_total_append pooled_def)
  with r1 r d' a show ?case by (simp add: per_dataset_scalars_def)
qed

lemma total_averages_result:
  assumes "\<forall>(k, v, c) \<in> set tot. c \<noteq> 0"
  shows "total_averages tot = Inr (map (\<lambda>(k, v, c). (k, v / real c)) tot)"
  using assms by (induction tot rule: total_averages.induct) auto

lemma pooled_nonempty:
  assumes "wf_metrics acc" and "map_of acc ds = Some ms" and "map_of ms m = Some vs"
  shows "pooled acc m \<noteq> []"
proof -
  from assms(2) have mem: "(ds, ms) \<in> set acc" by (rule map_of_SomeD)
  from assms(3) have "(m, vs) \<in> set ms" by (rule map_of_SomeD)
  with assms(1) mem have "vs \<noteq> []" by (auto simp: wf_metrics_def)
  with mem assms(3) show ?thesis by (force simp: pooled_def)
qed

text \<open>
  Claim C1. At the end of a validation epoch, on an accumulator as the steps build it
  (no list of values is empty), the hook returns without an error. The scalars it writes
  are, for every dataset and every metric of the accumulator in order, the arithmetic
  mean of the accumulated list, followed by the logged global values. For every metric
  present in some dataset the global value is the sum of all values accumulated for the
  metric over all datasets divided by their number: the mean weighted by sample count,
  not the mean of the dataset means. For \<^verbatim>\<open>{dsA: {psnr: [10, 20]}, dsB: {psnr: [30]}}\<close> the
  dataset means are 15 and 30 and the global mean is 20.
\<close>

theorem on_validation_epoch_end_means:
  assumes "wf_metrics (current_val_metrics s)"
  shows "\<exists>rep. on_validation_epoch_end epoch s = Inr rep \<and>
           add_scalars rep =
             per_dataset_scalars epoch (current_val_metrics s)
               @ map (\<lambda>(t, v). (t, v, epoch)) (logged rep) \<and>
           (\<forall>ds ms m vs.
              map_of (current_val_metrics s) ds = Some ms \<and> map_of ms m = Some vs \<longrightarrow>
                (DatasetMetric ds m, sum_list vs / real (length vs), epoch) \<in> set (add_scalars rep) \<and>
                map_of (logged rep) (AverageMetric m) =
                  Some (sum_list (pooled (current_val_metrics s) m)
                        / real (length (pooled (current_val_metrics s) m))))"
proof (cases "current_val_metrics s = []")
  case True
  then show ?thesis by (simp add: on_validation_epoch_end_def per_dataset_scalars_def)
next
  case False
  define acc where "acc = current_val_metrics s"
  from log_datasets_result [of acc "[]" epoch "[]"] assms
  obtain tot where r: "log_datasets epoch acc ([], []) = Inr (per_dataset_scalars epoch acc, tot)"
    and d: "distinct (map fst tot)"
    and m: "\<forall>m. map_of tot m = add_total None (pooled acc m)"
    by (auto simp: acc_def)
  have pos: "\<forall>(k, v, c) \<in> set tot. c \<noteq> 0"
  proof -
    have "c \<noteq> 0" if "(k, v, c) \<in> set tot" for k v c
    proof -
      from that d have "map_of tot k = Some (v, c)" by simp
      with m show ?thesis by (auto simp: add_total_def split: if_splits)
    qed
    then show ?thesis by blast
  qed
  define avgs where "avgs = map (\<lambda>(k, v, c). (k, v / real c)) tot"
  have ta: "total_averages tot = Inr avgs"
    unfolding avgs_def using pos by (rule total_averages_result)
  define rep where "rep = \<lparr>add_scalars = per_dataset_scalars epoch acc
        @ map (\<lambda>(m, a). (AverageMetric m, a, epoch)) avgs,
      logged = map (\<lambda>(m, a). (AverageMetric m, a)) avgs\<rparr>"
  have res: "on_validation_epoch_end epoch s = Inr rep"
    using False r ta by (simp add: on_validation_epoch_end_def acc_def rep_def)
  have shape: "add_scalars rep =
      per_dataset_scalars epoch acc @ map (\<lambda>(t, v). (t, v, epoch)) (logged rep)"
    by (simp add: rep_def case_prod_beta comp_def)
  have avg_lookup: "map_of avgs k = map_option (\<lambda>(v, c). v / real c) (map_of tot k)" for k
    unfolding avgs_def by (induction tot) auto
  have log_lookup: "map_of (logged rep) (AverageMetric k) = map_of avgs k" for k
    unfolding rep_def by (induction avgs) auto
  have main: "(DatasetMetric ds mn, sum_list vs / real (length vs), epoch) \<in> set (add_scalars rep) \<and>
      map_of (logged rep) (AverageMetric mn) =
        Some (sum_list (pooled acc mn) / real (length (pooled acc mn)))"
    if h: "map_of acc ds = Some ms" "map_of ms mn = Some vs" for ds ms mn vs
  proof -
    from h have "(ds, ms) \<in> set acc" "(mn, vs) \<in> set ms" by (auto dest: map_of_SomeD)
    then have "(DatasetMetric ds mn, mean vs, epoch) \<in> set (per_dataset_scalars epoch acc)"
      by (force simp: per_dataset_scalars_def)
    then have a: "(DatasetMetric ds mn, sum_list vs / real (length vs), epoch) \<in> set (add_scalars rep)"
      by (simp add: rep_def mean_def)
    have "pooled acc mn \<noteq> []" using pooled_nonempty [OF _ h] assms by (simp add: acc_def)
    with m have "map_of tot mn = Some (sum_list (pooled acc mn), length (pooled acc mn))"
      by (simp add: add_total_def)
    then have "map_of (logged rep) (AverageMetric mn) =
        Some (sum_list (pooled acc mn) / real (length (pooled acc mn)))"
      by (simp add: log_lookup avg_lookup)
    with a show ?thesis by simp
  qed
  from res shape main show ?thesis unfolding acc_def by blast
qed

theorem on_validation_epoch_end_means_witness:
  "wf_metrics [(''dsA'', [(''psnr'', [10, 20])]), (''dsB'', [(''psnr'', [30])])] \<and>
   (\<exists>rep. on_validation_epoch_end 3
       \<lparr>current_val_metrics = [(''dsA'', [(''psnr'', [10, 20])]), (''dsB'', [(''psnr'', [30])])],
        val_dataset_names = [0 \<mapsto> ''dsA'', 1 \<mapsto> ''dsB''], use_ema = False, warnings = []\<rparr>
       = Inr rep \<and>
     add_scalars rep =
       [(DatasetMetric ''dsA'' ''psnr'', 15, 3), (DatasetMetric ''dsB'' ''psnr'', 30, 3)]
         @ map (\<lambda>(t, v). (t, v, 3)) (logged rep) \<and>
     map_of (logged rep) (AverageMetric ''psnr'') = Some 20)"
proof -
  have wf: "wf_metrics (current_val_metrics
       \<lparr>current_val_metrics = [(''dsA'', [(''psnr'', [10, 20])]), (''dsB'', [(''psnr'', [30])])],
        val_dataset_names = [0 \<mapsto> ''dsA'', 1 \<mapsto> ''dsB''], use_ema = False, warnings = []\<rparr>)"
    by (simp add: wf_metrics_def is_dict_def)
  from on_validation_epoch_end_means [OF wf, of 3]
  obtain rep where rep: "on_validation_epoch_end 3
       \<lparr>current_val_metrics = [(''dsA'', [(''psnr'', [10, 20])]), (''dsB'', [(''psnr'', [30])])],
        val_dataset_names = [0 \<mapsto> ''dsA'', 1 \<mapsto> ''dsB''], use_ema = False, warnings = []\<rparr>
       = Inr rep"
    and sc: "add_scalars rep =
       per_dataset_scalars 3 [(''dsA'', [(''psnr'', [10, 20])]), (''dsB'', [(''psnr'', [30])])]
         @ map (\<lambda>(t, v). (t, v, 3)) (logged rep)"
    and av: "\<And>ds ms m vs.
       map_of [(''dsA'', [(''psnr'', [10, 20])]), (''dsB'', [(''psnr'', [30::real])])] ds = Some ms
         \<Longrightarrow> map_of ms m = Some vs \<Longrightarrow>
       map_of (logged rep) (AverageMetric m) =
         Some (sum_list (pooled [(''dsA'', [(''psnr'', [10, 20])]), (''dsB'', [(''psnr'', [30])])] m)
               / real (length (pooled [(''dsA'', [(''psnr'', [10, 20])]), (''dsB'', [(''psnr'', [30])])] m)))"
    by auto
  have "map_of (logged rep) (AverageMetric ''psnr'') = Some 20"
    using av [of "''dsA''" "[(''psnr'', [10, 20])]" "''psnr''" "[10, 20]"]
    by (simp add: pooled_def)
  with wf rep sc show ?thesis by (simp add: per_dataset_scalars_def mean_def)
qed

section \<open>Properties of the scheduler configuration\<close>

text \<open>
  Claim C8, as the code has it. When the optimizer has been built, the configured
  scheduler type selects one of exactly two algorithms. The two names \<^verbatim>\<open>MultiStepLR\<close> and
  \<^verbatim>\<open>MultiStepRestartLR\<close> select step decay at milestones; cosine annealing is selected by
  the single name \<^verbatim>\<open>CosineAnnealingRestartLR\<close> and by no other; every other type raises
  \<^verbatim>\<open>NotImplementedError\<close> with a message that contains the type.
\<close>

theorem configure_optimizers_scheduler_names:
  assumes "opt_train = Some train_opt"
    and "train_opt ''scheduler'' = Some sched"
    and "sched ''type'' = Some t"
    and "optimizer_params = Some (optim_type, params, kwargs)"
    and "get_optimizer optim_type params kwargs = Inr optm"
  shows "(t = PStr ''MultiStepLR'' \<or> t = PStr ''MultiStepRestartLR'' \<longrightarrow>
           (\<exists>b. configure_optimizers opt_train opt_checkpoint optimizer_params = Inr b \<and>
                 lr_scheduler b = MultiStepLR optm (sched(''type'' := None))))
       \<and> (t = PStr ''CosineAnnealingRestartLR'' \<longrightarrow>
           (\<exists>b. configure_optimizers opt_train opt_checkpoint optimizer_params = Inr b \<and>
                 lr_scheduler b = CosineAnnealingLR optm (sched(''type'' := None))))
       \<and> (t \<noteq> PStr ''MultiStepLR'' \<and> t \<noteq> PStr ''MultiStepRestartLR'' \<and>
          t \<noteq> PStr ''CosineAnnealingRestartLR'' \<longrightarrow>
           configure_optimizers opt_train opt_checkpoint optimizer_params =
             Inl (NotImplementedError (''Scheduler '' @ py_str t @ '' is not implemented yet.'')))
       \<and> ((\<exists>b. configure_optimizers opt_train opt_checkpoint optimizer_params = Inr b \<and>
                is_CosineAnnealingLR (lr_scheduler b))
           \<longleftrightarrow> t = PStr ''CosineAnnealingRestartLR'')"
  using assms by (auto simp: configure_optimizers_def getitem_def Let_def)

theorem configure_optimizers_scheduler_names_witness:
  "(\<exists>b. configure_optimizers
          (Some [''scheduler'' \<mapsto> [''type'' \<mapsto> PStr ''MultiStepLR'', ''gamma'' \<mapsto> PInt 1]])
          None (Some (PStr ''Adam'', (), ())) = Inr b \<and>
        lr_scheduler b = MultiStepLR (Optimizer Adam () ()) [''gamma'' \<mapsto> PInt 1])
   \<and> (\<exists>b. configure_optimizers
          (Some [''scheduler'' \<mapsto> [''type'' \<mapsto> PStr ''MultiStepRestartLR'', ''gamma'' \<mapsto> PInt 1]])
          None (Some (PStr ''Adam'', (), ())) = Inr b \<and>
        lr_scheduler b = MultiStepLR (Optimizer Adam () ()) [''gamma'' \<mapsto> PInt 1])
   \<and> (\<exists>b. configure_optimizers
          (Some [''scheduler'' \<mapsto> [''type'' \<mapsto> PStr ''CosineAnnealingRestartLR'', ''T_max'' \<mapsto> PInt 9]])
          None (Some (PStr ''Adam'', (), ())) = Inr b \<and>
        lr_scheduler b = CosineAnnealingLR (Optimizer Adam () ()) [''T_max'' \<mapsto> PInt 9])
   \<and> configure_optimizers (Some [''scheduler'' \<mapsto> [''type'' \<mapsto> PStr ''StepLR'']])
          None (Some (PStr ''Adam'', (), ())) =
        Inl (NotImplementedError ''Scheduler StepLR is not implemented yet.'')"
proof -
  have opt: "get_optimizer (PStr ''Adam'') () () = Inr (Optimizer Adam () ())"
    by (simp add: get_optimizer_def)
  have upd: "[''type'' \<mapsto> t, k \<mapsto> v](''type'' := None) = [k \<mapsto> v]"
    if "k \<noteq> ''type''" for t v :: pyval and k
    using that by (auto simp: fun_eq_iff)
  note th = configure_optimizers_scheduler_names [OF refl _ _ refl opt]
  show ?thesis
    using th [where train_opt = "[''scheduler'' \<mapsto> [''type'' \<mapsto> PStr ''MultiStepLR'', ''gamma'' \<mapsto> PInt 1]]"
        and sched = "[''type'' \<mapsto> PStr ''MultiStepLR'', ''gamma'' \<mapsto> PInt 1]"
        and t = "PStr ''MultiStepLR''" and opt_checkpoint = None]
      th [where train_opt = "[''scheduler'' \<mapsto> [''type'' \<mapsto> PStr ''MultiStepRestartLR'', ''gamma'' \<mapsto> PInt 1]]"
        and sched = "[''type'' \<mapsto> PStr ''MultiStepRestartLR'', ''gamma'' \<mapsto> PInt 1]"
        and t = "PStr ''MultiStepRestartLR''" and opt_checkpoint = None]
      th [where train_opt = "[''scheduler'' \<mapsto> [''type'' \<mapsto> PStr ''CosineAnnealingRestartLR'', ''T_max'' \<mapsto> PInt 9]]"
        and sched = "[''type'' \<mapsto> PStr ''CosineAnnealingRestartLR'', ''T_max'' \<mapsto> PInt 9]"
        and t = "PStr ''CosineAnnealingRestartLR''" and opt_checkpoint = None]
      th [where train_opt = "[''scheduler'' \<mapsto> [''type'' \<mapsto> PStr ''StepLR'']]"
        and sched = "[''type'' \<mapsto> PStr ''StepLR'']"
        and t = "PStr ''StepLR''" and opt_checkpoint = None]
    by (simp add: upd)
qed

text \<open>
  The claim as stated gives cosine annealing two configured names. The name of the class
  that the cosine branch instantiates, \<^verbatim>\<open>CosineAnnealingLR\<close>, is not one: it is rejected
  like any unknown type, whereas on the step-decay side the class name \<^verbatim>\<open>MultiStepLR\<close> is
  accepted.
\<close>

theorem configure_optimizers_cosine_alias:
  "configure_optimizers (Some [''scheduler'' \<mapsto> [''type'' \<mapsto> PStr ''CosineAnnealingLR'']])
      None (Some (PStr ''Adam'', (), ())) =
    Inl (NotImplementedError ''Scheduler CosineAnnealingLR is not implemented yet.'')"
  by (simp add: configure_optimizers_def getitem_def get_optimizer_def)

end
